theory Spec2Isabelle
  imports Complex_Main "HOL-Library.Signed_Division"
begin

section \<open>Lunar lander simulation core: Entity, Lander, Physics, Game\<close>

text \<open>
  A shallow embedding of the simulation core of the lunar lander:
  \<^item> \<^verbatim>\<open>Entity.cpp\<close> (class \<^verbatim>\<open>Entity\<close> and class \<^verbatim>\<open>Lander\<close>),
  \<^item> \<^verbatim>\<open>Physics.cpp\<close> (class \<^verbatim>\<open>Physics\<close>),
  \<^item> \<^verbatim>\<open>Game.cpp\<close> (class \<^verbatim>\<open>Game\<close>).

  Conventions of the model.
  \<^item> The C++ type \<^verbatim>\<open>float\<close> is modelled by \<^typ>\<open>real\<close>: every operation is the exact
    one. Rounding, infinities and NaN are outside the model.
  \<^item> A \<^verbatim>\<open>float[3]\<close> member is a record with one field per index.
  \<^item> Mutation through \<^verbatim>\<open>this\<close> or through a pointer is explicit state passing: a
    method takes the object and returns the updated object.
  \<^item> Console output (\<^verbatim>\<open>std::cout\<close>) is not part of the state. A \<^verbatim>\<open>std::cout\<close>
    statement that dereferences a pointer is kept as a null check.
  \<^item> The headers \<^verbatim>\<open>Entity.h\<close>, \<^verbatim>\<open>Physics.h\<close>, \<^verbatim>\<open>Game.h\<close> and the files
    \<^verbatim>\<open>Terrain.cpp\<close>, \<^verbatim>\<open>InputHandler.cpp\<close> are not among the sources. The accessors
    they declare (\<^verbatim>\<open>GetFuel\<close>, \<^verbatim>\<open>IsLanded\<close>, \<^verbatim>\<open>SetLanded\<close>, \<^verbatim>\<open>SetActive\<close>, ...) are
    read as plain field reads and writes; everything else that is missing is a parameter
    (record \<open>externals\<close> below).
\<close>

subsection \<open>Entity and Lander (Entity.cpp)\<close>

record vec3 =
  idx0 :: real
  idx1 :: real
  idx2 :: real

definition vec3_zero :: vec3 where
  "vec3_zero = \<lparr>idx0 = 0, idx1 = 0, idx2 = 0\<rparr>"

text \<open>
  The members of \<^verbatim>\<open>Entity\<close> and \<^verbatim>\<open>Lander\<close> that some method reads or writes.
  \<^verbatim>\<open>mID\<close> and \<^verbatim>\<open>mName\<close> are never read by the modelled code and are left out.
\<close>

record lander =
  mActive :: bool
  mPosition :: vec3
  mRotation :: vec3
  mScale :: vec3
  mWidth :: real
  mHeight :: real
  mDepth :: real
  mMass :: real
  mThrustLevel :: real
  mThrustActive :: bool
  mMaxThrustForce :: real
  mFuel :: real
  mMaxFuel :: real
  mFuelConsumptionRate :: real
  mLanded :: bool
  mCrashed :: bool
  mVelocity :: vec3
  mAcceleration :: vec3

text \<open>\<^verbatim>\<open>std::max(a, b)\<close> is \<^verbatim>\<open>(a < b) ? b : a\<close>; \<^verbatim>\<open>std::min(a, b)\<close> is \<^verbatim>\<open>(b < a) ? b : a\<close>.\<close>

definition std_max :: "real \<Rightarrow> real \<Rightarrow> real" where
  "std_max a b = (if a < b then b else a)"

definition std_min :: "real \<Rightarrow> real \<Rightarrow> real" where
  "std_min a b = (if b < a then b else a)"

text \<open>\<^verbatim>\<open>Entity::SetPosition(float x, float y, float z)\<close> and \<^verbatim>\<open>Entity::SetRotation\<close>.\<close>

definition SetPosition :: "lander \<Rightarrow> real \<Rightarrow> real \<Rightarrow> real \<Rightarrow> lander" where
  "SetPosition l x y z = l\<lparr>mPosition := \<lparr>idx0 = x, idx1 = y, idx2 = z\<rparr>\<rparr>"

definition SetRotation :: "lander \<Rightarrow> real \<Rightarrow> real \<Rightarrow> real \<Rightarrow> lander" where
  "SetRotation l x y z = l\<lparr>mRotation := \<lparr>idx0 = x, idx1 = y, idx2 = z\<rparr>\<rparr>"

text \<open>The constructors \<^verbatim>\<open>Entity::Entity()\<close> followed by \<^verbatim>\<open>Lander::Lander()\<close>.\<close>

definition Lander_new :: lander where
  "Lander_new =
     \<lparr>mActive = True,
      mPosition = vec3_zero,
      mRotation = vec3_zero,
      mScale = \<lparr>idx0 = 1, idx1 = 1, idx2 = 1\<rparr>,
      mWidth = 20,
      mHeight = 30,
      mDepth = 20,
      mMass = 10000,
      mThrustLevel = 0,
      mThrustActive = False,
      mMaxThrustForce = 50000,
      mFuel = 1000,
      mMaxFuel = 1000,
      mFuelConsumptionRate = 10,
      mLanded = False,
      mCrashed = False,
      mVelocity = vec3_zero,
      mAcceleration = vec3_zero\<rparr>"

text \<open>
  \<^verbatim>\<open>Lander::Update(float deltaTime)\<close>: the position is advanced by the velocity, then fuel
  is consumed if thrust is active and fuel is left.
\<close>

definition Lander_Update :: "lander \<Rightarrow> real \<Rightarrow> lander" where
  "Lander_Update l deltaTime =
     (let p = mPosition l;
          v = mVelocity l;
          l1 = l\<lparr>mPosition := \<lparr>idx0 = idx0 p + idx0 v * deltaTime,
                              idx1 = idx1 p + idx1 v * deltaTime,
                              idx2 = idx2 p + idx2 v * deltaTime\<rparr>\<rparr>
      in if mThrustActive l1 \<and> mFuel l1 > 0 then
           (let l2 = l1\<lparr>mFuel := mFuel l1 - mFuelConsumptionRate l1 * mThrustLevel l1 * deltaTime\<rparr>;
                l3 = l2\<lparr>mFuel := std_max 0 (mFuel l2)\<rparr>
            in if mFuel l3 \<le> 0 then l3\<lparr>mThrustActive := False\<rparr> else l3)
         else l1)"

text \<open>\<^verbatim>\<open>Lander::ApplyThrust(float amount)\<close>.\<close>

definition Lander_ApplyThrust :: "lander \<Rightarrow> real \<Rightarrow> lander" where
  "Lander_ApplyThrust l amount =
     (if mFuel l \<le> 0 then l\<lparr>mThrustActive := False, mThrustLevel := 0\<rparr>
      else
        (let l1 = l\<lparr>mThrustLevel := std_max 0 (std_min 1 amount)\<rparr>
         in l1\<lparr>mThrustActive := (mThrustLevel l1 > 0)\<rparr>))"

text \<open>
  The normalisation loops of \<^verbatim>\<open>Lander::RotateLeft\<close> and \<^verbatim>\<open>Lander::RotateRight\<close>:
  \<^verbatim>\<open>while (r >= 360.0f) r -= 360.0f;\<close> and \<^verbatim>\<open>while (r < 0.0f) r += 360.0f;\<close>.
  Over the reals both loops terminate.
\<close>

function wrap_down :: "real \<Rightarrow> real" where
  "wrap_down r = (if r \<ge> 360 then wrap_down (r - 360) else r)"
  by pat_completeness auto
termination
proof (relation "measure (\<lambda>r. nat \<lfloor>r\<rfloor>)")
  show "wf (measure (\<lambda>r::real. nat \<lfloor>r\<rfloor>))" by simp
next
  fix r :: real
  assume "360 \<le> r"
  then have "\<lfloor>r - 360\<rfloor> = \<lfloor>r\<rfloor> - 360" "360 \<le> \<lfloor>r\<rfloor>"
    by linarith+
  then show "(r - 360, r) \<in> measure (\<lambda>r. nat \<lfloor>r\<rfloor>)"
    by simp
qed

function wrap_up :: "real \<Rightarrow> real" where
  "wrap_up r = (if r < 0 then wrap_up (r + 360) else r)"
  by pat_completeness auto
termination
proof (relation "measure (\<lambda>r. nat (- \<lfloor>r\<rfloor>))")
  show "wf (measure (\<lambda>r::real. nat (- \<lfloor>r\<rfloor>)))" by simp
next
  fix r :: real
  assume "r < 0"
  then have "\<lfloor>r + 360\<rfloor> = \<lfloor>r\<rfloor> + 360" "\<lfloor>r\<rfloor> < 0"
    by linarith+
  then show "(r + 360, r) \<in> measure (\<lambda>r. nat (- \<lfloor>r\<rfloor>))"
    by simp
qed

declare wrap_down.simps [simp del]
declare wrap_up.simps [simp del]

definition RotateLeft :: "lander \<Rightarrow> real \<Rightarrow> lander" where
  "RotateLeft l amount =
     (let r = mRotation l
      in l\<lparr>mRotation := r\<lparr>idx2 := wrap_down (idx2 r + amount)\<rparr>\<rparr>)"

definition RotateRight :: "lander \<Rightarrow> real \<Rightarrow> lander" where
  "RotateRight l amount =
     (let r = mRotation l
      in l\<lparr>mRotation := r\<lparr>idx2 := wrap_up (idx2 r - amount)\<rparr>\<rparr>)"

text \<open>\<^verbatim>\<open>Lander::Reset()\<close>.\<close>

definition Lander_Reset :: "lander \<Rightarrow> lander" where
  "Lander_Reset l =
     (let l1 = SetPosition l 0 100 0;
          l2 = SetRotation l1 0 0 0;
          l3 = l2\<lparr>mVelocity := vec3_zero, mAcceleration := vec3_zero\<rparr>;
          l4 = l3\<lparr>mThrustLevel := 0, mThrustActive := False\<rparr>;
          l5 = l4\<lparr>mFuel := mMaxFuel l4\<rparr>
      in l5\<lparr>mLanded := False, mCrashed := False\<rparr>)"


subsection \<open>Code that is not among the sources\<close>

text \<open>
  \<^verbatim>\<open>Terrain.h\<close> declares the class \<^verbatim>\<open>Terrain\<close>, but \<^verbatim>\<open>Terrain.cpp\<close> is missing. The state
  of a terrain object is the type parameter \<open>'t\<close> and its methods are parameters:
  \<^item> \<open>CheckCollision2D\<close> and \<open>CheckCollision3D\<close> model
    \<^verbatim>\<open>bool CheckCollision2D(Lander* lander, float& collisionHeight)\<close>: they take the terrain,
    the lander and the value of \<^verbatim>\<open>collisionHeight\<close> at the call and return the result
    together with the value of \<^verbatim>\<open>collisionHeight\<close> after the call;
  \<^item> \<open>IsValidLanding2D\<close> and \<open>IsValidLanding3D\<close> model \<^verbatim>\<open>bool IsValidLanding2D(Lander* lander)\<close>;
  \<^item> the four queries are read-only on the terrain and on the lander;
  \<^item> \<open>Generate2D\<close>, \<open>Generate3D\<close> and \<open>Terrain_Update\<close> return the terrain after the call
    (a random source that the generation reads counts as part of \<open>'t\<close>); \<open>Terrain_new\<close>
    is the constructor \<^verbatim>\<open>Terrain()\<close>.

  \<^verbatim>\<open>Entity.cpp\<close> defines \<^verbatim>\<open>SetPosition\<close> with three arguments only, and \<^verbatim>\<open>Physics.cpp\<close> and
  \<^verbatim>\<open>Game.cpp\<close> also call it with two. The third argument of those calls comes from the
  declaration in the missing \<^verbatim>\<open>Entity.h\<close>: \<open>SetPosition_z\<close> is that default value.

  \<open>USE_OPENGL\<close> is the preprocessor symbol tested by \<^verbatim>\<open>Game::Initialize\<close>.
\<close>

record 't externals =
  SetPosition_z :: real
  USE_OPENGL :: bool
  Terrain_new :: 't
  Terrain_Update :: "'t \<Rightarrow> real \<Rightarrow> 't"
  Generate2D :: "'t \<Rightarrow> int \<Rightarrow> int \<Rightarrow> 't"
  Generate3D :: "'t \<Rightarrow> int \<Rightarrow> int \<Rightarrow> int \<Rightarrow> 't"
  CheckCollision2D :: "'t \<Rightarrow> lander \<Rightarrow> real \<Rightarrow> bool \<times> real"
  IsValidLanding2D :: "'t \<Rightarrow> lander \<Rightarrow> bool"
  CheckCollision3D :: "'t \<Rightarrow> lander \<Rightarrow> real \<Rightarrow> bool \<times> real"
  IsValidLanding3D :: "'t \<Rightarrow> lander \<Rightarrow> bool"

text \<open>The call \<^verbatim>\<open>SetPosition(x, y)\<close> with two arguments.\<close>

definition SetPosition2 :: "'t externals \<Rightarrow> lander \<Rightarrow> real \<Rightarrow> real \<Rightarrow> lander" where
  "SetPosition2 ext l x y = SetPosition l x y (SetPosition_z ext)"

subsection \<open>Physics (Physics.cpp)\<close>

text \<open>
  The members of \<^verbatim>\<open>Physics\<close>. The pointers \<^verbatim>\<open>mLander\<close> and \<^verbatim>\<open>mTerrain\<close> are either null or
  point to the one lander and the one terrain of the game (\<^verbatim>\<open>RegisterLander\<close>,
  \<^verbatim>\<open>RegisterTerrain\<close>): \<open>mLander_reg\<close> and \<open>mTerrain_reg\<close> say that the pointer is not null,
  and the objects pointed to are passed to each method and returned by it.
  \<^verbatim>\<open>mIntegrationMethod\<close> is never read and is left out.
\<close>

record physics =
  mGravity :: real
  mAirDensity :: real
  m3DMode :: bool
  mLander_reg :: bool
  mTerrain_reg :: bool
  mTimeScale :: real

definition Physics_new :: physics where
  "Physics_new =
     \<lparr>mGravity = 162 / 100,
      mAirDensity = 0,
      m3DMode = False,
      mLander_reg = False,
      mTerrain_reg = False,
      mTimeScale = 1\<rparr>"

definition RegisterLander :: "physics \<Rightarrow> physics" where
  "RegisterLander ph = ph\<lparr>mLander_reg := True\<rparr>"

definition RegisterTerrain :: "physics \<Rightarrow> physics" where
  "RegisterTerrain ph = ph\<lparr>mTerrain_reg := True\<rparr>"

text \<open>
  \<^verbatim>\<open>Physics::ApplyGravity(Lander* lander, float deltaTime)\<close>. In \<open>Physics_ApplyGravity\<close>,
  \<open>Physics_ApplyThrust\<close> and \<open>Physics_ApplyDrag\<close> the argument \<^verbatim>\<open>lander\<close> is the registered
  lander: \<^verbatim>\<open>Update2D\<close> and \<^verbatim>\<open>Update3D\<close>, the only callers, pass \<^verbatim>\<open>mLander\<close> after their own
  null check.
\<close>

definition Physics_ApplyGravity :: "physics \<Rightarrow> lander \<Rightarrow> real \<Rightarrow> lander" where
  "Physics_ApplyGravity ph l deltaTime =
     (if mLanded l \<or> mCrashed l then l
      else
        (let velocity = mVelocity l
         in l\<lparr>mVelocity := velocity\<lparr>idx1 := idx1 velocity + mGravity ph * deltaTime * (1031 / 100)\<rparr>\<rparr>))"

text \<open>\<^verbatim>\<open>Physics::ApplyThrust(Lander* lander, float deltaTime)\<close>; \<^verbatim>\<open>M_PI\<close> is \<^term>\<open>pi\<close>.\<close>

definition Physics_ApplyThrust :: "physics \<Rightarrow> lander \<Rightarrow> real \<Rightarrow> lander" where
  "Physics_ApplyThrust ph l deltaTime =
     (if mLanded l \<or> mCrashed l \<or> \<not> mThrustActive l then l
      else
        (let thrustForce = (25 / 10) * mGravity ph * mThrustLevel l;
             velocity = mVelocity l;
             rotation = mRotation l
         in if \<not> m3DMode ph then
              l\<lparr>mVelocity := velocity\<lparr>idx1 := idx1 velocity - thrustForce * deltaTime\<rparr>\<rparr>
            else
              (let rotX = idx0 rotation * pi / 180;
                   rotZ = idx2 rotation * pi / 180;
                   thrustX = sin rotZ * thrustForce;
                   thrustY = cos rotZ * thrustForce;
                   thrustZ = sin rotX * thrustForce
               in l\<lparr>mVelocity := \<lparr>idx0 = idx0 velocity - thrustX * deltaTime,
                                   idx1 = idx1 velocity - thrustY * deltaTime,
                                   idx2 = idx2 velocity - thrustZ * deltaTime\<rparr>\<rparr>)))"

text \<open>Reading and writing \<^verbatim>\<open>velocity[i]\<close> for the loop index of \<^verbatim>\<open>ApplyDrag\<close>.\<close>

definition vget :: "vec3 \<Rightarrow> nat \<Rightarrow> real" where
  "vget v i = (if i = 0 then idx0 v else if i = 1 then idx1 v else idx2 v)"

definition vset :: "vec3 \<Rightarrow> nat \<Rightarrow> real \<Rightarrow> vec3" where
  "vset v i x = (if i = 0 then v\<lparr>idx0 := x\<rparr> else if i = 1 then v\<lparr>idx1 := x\<rparr> else v\<lparr>idx2 := x\<rparr>)"

text \<open>One iteration of the loop of \<^verbatim>\<open>ApplyDrag\<close>, and the method itself.\<close>

definition drag_iteration :: "physics \<Rightarrow> real \<Rightarrow> real \<Rightarrow> real \<Rightarrow> nat \<Rightarrow> lander \<Rightarrow> lander" where
  "drag_iteration ph deltaTime dragCoefficient area i l =
     (let speed = vget (mVelocity l) i;
          dragForce = (1 / 2) * mAirDensity ph * speed * \<bar>speed\<bar> * dragCoefficient * area
      in if speed \<noteq> 0 then
           l\<lparr>mVelocity := vset (mVelocity l) i (speed - dragForce * deltaTime / mMass l)\<rparr>
         else l)"

definition Physics_ApplyDrag :: "physics \<Rightarrow> lander \<Rightarrow> real \<Rightarrow> lander" where
  "Physics_ApplyDrag ph l deltaTime =
     (if mLanded l \<or> mCrashed l \<or> mAirDensity ph \<le> 0 then l
      else
        (let dragCoefficient = 1 / 2;
             area = mWidth l * mHeight l
         in fold (drag_iteration ph deltaTime dragCoefficient area)
              [0 ..< (if m3DMode ph then 3 else 2)] l))"

text \<open>
  \<^verbatim>\<open>Physics::CheckCollisions2D()\<close> and \<^verbatim>\<open>Physics::CheckCollisions3D()\<close> return the \<^verbatim>\<open>bool\<close>
  result and the lander after the call. \<^verbatim>\<open>collisionHeight\<close> is 0 when the terrain is asked.
  The chained assignment \<^verbatim>\<open>velocity[0] = velocity[1] = 0.0f\<close> writes from right to left.
\<close>

definition CheckCollisions2D :: "'t externals \<Rightarrow> physics \<Rightarrow> 't \<Rightarrow> lander \<Rightarrow> bool \<times> lander" where
  "CheckCollisions2D ext ph t l =
     (if \<not> mLander_reg ph \<or> \<not> mTerrain_reg ph then (False, l)
      else if mLanded l \<or> mCrashed l then (False, l)
      else
        (let (hit, collisionHeight) = CheckCollision2D ext t l 0
         in if hit then
              (let position = mPosition l;
                   l1 = SetPosition2 ext l (idx0 position) (collisionHeight - mHeight l / 2)
               in if IsValidLanding2D ext t l1 then
                    (let l2 = l1\<lparr>mLanded := True\<rparr>
                     in (True, l2\<lparr>mVelocity := (mVelocity l2)\<lparr>idx1 := 0, idx0 := 0\<rparr>\<rparr>))
                  else
                    (let l2 = l1\<lparr>mCrashed := True\<rparr>
                     in (True, l2\<lparr>mVelocity := (mVelocity l2)\<lparr>idx1 := 0, idx0 := 0\<rparr>\<rparr>)))
            else (False, l)))"

definition CheckCollisions3D :: "'t externals \<Rightarrow> physics \<Rightarrow> 't \<Rightarrow> lander \<Rightarrow> bool \<times> lander" where
  "CheckCollisions3D ext ph t l =
     (if \<not> mLander_reg ph \<or> \<not> mTerrain_reg ph then (False, l)
      else if mLanded l \<or> mCrashed l then (False, l)
      else
        (let (hit, collisionHeight) = CheckCollision3D ext t l 0
         in if hit then
              (let position = mPosition l;
                   l1 = SetPosition l (idx0 position) (collisionHeight - mHeight l / 2)
                          (idx2 position)
               in if IsValidLanding3D ext t l1 then
                    (let l2 = l1\<lparr>mLanded := True\<rparr>
                     in (True,
                         l2\<lparr>mVelocity := (mVelocity l2)\<lparr>idx2 := 0, idx1 := 0, idx0 := 0\<rparr>\<rparr>))
                  else
                    (let l2 = l1\<lparr>mCrashed := True\<rparr>
                     in (True,
                         l2\<lparr>mVelocity := (mVelocity l2)\<lparr>idx2 := 0, idx1 := 0, idx0 := 0\<rparr>\<rparr>)))
            else (False, l)))"

text \<open>\<^verbatim>\<open>Physics::CheckCollisions()\<close>.\<close>

definition Physics_CheckCollisions :: "'t externals \<Rightarrow> physics \<Rightarrow> 't \<Rightarrow> lander \<Rightarrow> bool \<times> lander" where
  "Physics_CheckCollisions ext ph t l =
     (if m3DMode ph then CheckCollisions3D ext ph t l else CheckCollisions2D ext ph t l)"

text \<open>\<^verbatim>\<open>Physics::Update2D(float deltaTime)\<close> and \<^verbatim>\<open>Physics::Update3D(float deltaTime)\<close>.\<close>

definition Update2D :: "'t externals \<Rightarrow> physics \<Rightarrow> 't \<Rightarrow> lander \<Rightarrow> real \<Rightarrow> lander" where
  "Update2D ext ph t l deltaTime =
     (if \<not> mLander_reg ph \<or> \<not> mTerrain_reg ph then l
      else
        (let scaledDeltaTime = deltaTime * mTimeScale ph;
             l1 = Physics_ApplyGravity ph l scaledDeltaTime;
             l2 = Physics_ApplyThrust ph l1 scaledDeltaTime;
             l3 = Physics_ApplyDrag ph l2 scaledDeltaTime;
             l4 = (if \<not> mLanded l3 \<and> \<not> mCrashed l3 then
                     (let velocity = mVelocity l3;
                          position = mPosition l3;
                          newX = idx0 position + idx0 velocity * deltaTime;
                          newY = idx1 position + idx1 velocity * deltaTime
                      in SetPosition2 ext l3 newX newY)
                   else l3)
         in snd (CheckCollisions2D ext ph t l4)))"

definition Update3D :: "'t externals \<Rightarrow> physics \<Rightarrow> 't \<Rightarrow> lander \<Rightarrow> real \<Rightarrow> lander" where
  "Update3D ext ph t l deltaTime =
     (if \<not> mLander_reg ph \<or> \<not> mTerrain_reg ph then l
      else
        (let l1 = Physics_ApplyGravity ph l deltaTime;
             l2 = Physics_ApplyThrust ph l1 deltaTime;
             l3 = Physics_ApplyDrag ph l2 deltaTime;
             l4 = (if \<not> mLanded l3 \<and> \<not> mCrashed l3 then
                     (let velocity = mVelocity l3;
                          position = mPosition l3;
                          newX = idx0 position + idx0 velocity * deltaTime;
                          newY = idx1 position + idx1 velocity * deltaTime;
                          newZ = idx2 position + idx2 velocity * deltaTime
                      in SetPosition l3 newX newY newZ)
                   else l3)
         in snd (CheckCollisions3D ext ph t l4)))"

text \<open>\<^verbatim>\<open>Physics::Update(float deltaTime)\<close>.\<close>

definition Physics_Update :: "'t externals \<Rightarrow> physics \<Rightarrow> 't \<Rightarrow> lander \<Rightarrow> real \<Rightarrow> lander" where
  "Physics_Update ext ph t l deltaTime =
     (if m3DMode ph then Update3D ext ph t l deltaTime else Update2D ext ph t l deltaTime)"


subsection \<open>Game (Game.cpp)\<close>

datatype GameState = READY | FLYING | LANDED | CRASHED

datatype Difficulty = EASY | NORMAL | HARD

text \<open>
  The members of \<^verbatim>\<open>Game\<close>. A \<^verbatim>\<open>std::unique_ptr\<close> member is an option (\<open>None\<close> is the null
  pointer); for the renderer and the input handler, whose state the game never reads,
  only whether the pointer is set is kept. \<^verbatim>\<open>mLastFrameTime\<close> is used by \<^verbatim>\<open>Game::Run\<close> alone
  and is left out. The member \<^verbatim>\<open>Game::m3DMode\<close> is \<open>m3DMode_g\<close>, since \<^verbatim>\<open>Physics\<close> has a
  member of the same name.
\<close>

record 't game =
  mGameState :: GameState
  mDifficulty :: Difficulty
  m3DMode_g :: bool
  mScore :: real
  mElapsedTime :: real
  mFuelUsed :: real
  mWindowWidth :: int
  mWindowHeight :: int
  mIsRunning :: bool
  mLander :: "lander option"
  mTerrain :: "'t option"
  mPhysics :: "physics option"
  mRenderer :: bool
  mInputHandler :: bool

text \<open>The constructor \<^verbatim>\<open>Game::Game()\<close>.\<close>

definition Game_new :: "'t game" where
  "Game_new =
     \<lparr>mGameState = READY,
      mDifficulty = NORMAL,
      m3DMode_g = False,
      mScore = 0,
      mElapsedTime = 0,
      mFuelUsed = 0,
      mWindowWidth = 800,
      mWindowHeight = 600,
      mIsRunning = False,
      mLander = None,
      mTerrain = None,
      mPhysics = None,
      mRenderer = False,
      mInputHandler = False\<rparr>"

text \<open>
  The methods of \<^verbatim>\<open>Game\<close> return \<open>None\<close> where the C++ dereferences a null pointer
  (undefined behaviour), and \<open>Some\<close> of the game after the call otherwise.
  Integer division of the window size is the truncating division of C++.

  \<^verbatim>\<open>Game::Reset()\<close>: the last statement prints \<^verbatim>\<open>mLander->GetPosition()\<close> without a null
  check.
\<close>

definition Game_Reset :: "'t externals \<Rightarrow> 't game \<Rightarrow> 't game option" where
  "Game_Reset ext g =
     (let g1 = g\<lparr>mGameState := FLYING, mScore := 0, mElapsedTime := 0, mFuelUsed := 0\<rparr>;
          g2 = (case mLander g1 of
                  Some l \<Rightarrow>
                    (let l1 = Lander_Reset l;
                         l2 = l1\<lparr>mActive := True\<rparr>;
                         l3 = (if m3DMode_g g1 then
                                 SetPosition l2 (of_int (mWindowWidth g1 sdiv 2))
                                   (of_int (mWindowHeight g1 sdiv 3))
                                   (of_int (mWindowWidth g1 sdiv 2))
                               else
                                 SetPosition2 ext l2 (of_int (mWindowWidth g1 sdiv 2)) 100)
                     in g1\<lparr>mLander := Some l3\<rparr>)
                | None \<Rightarrow> g1);
          g3 = (case mTerrain g2 of
                  Some t \<Rightarrow>
                    (if m3DMode_g g2 then
                       g2\<lparr>mTerrain := Some (Generate3D ext t (mWindowWidth g2) (mWindowWidth g2)
                                               (mWindowHeight g2))\<rparr>
                     else
                       g2\<lparr>mTerrain := Some (Generate2D ext t (mWindowWidth g2) (mWindowHeight g2))\<rparr>)
                | None \<Rightarrow> g2)
      in case mLander g3 of None \<Rightarrow> None | Some l \<Rightarrow> Some g3)"

text \<open>\<^verbatim>\<open>Game::Shutdown()\<close>.\<close>

definition Game_Shutdown :: "'t game \<Rightarrow> 't game" where
  "Game_Shutdown g =
     g\<lparr>mIsRunning := False, mInputHandler := False, mRenderer := False,
       mPhysics := None, mTerrain := None, mLander := None\<rparr>"

text \<open>
  \<^verbatim>\<open>Game::Initialize()\<close> returns its \<^verbatim>\<open>bool\<close> result and the game. The argument
  \<open>renderer_ok\<close> is the result of \<^verbatim>\<open>mRenderer->Initialize(...)\<close>.
\<close>

definition Game_Initialize :: "'t externals \<Rightarrow> bool \<Rightarrow> 't game \<Rightarrow> (bool \<times> 't game) option" where
  "Game_Initialize ext renderer_ok g =
     (let g1 = g\<lparr>mWindowWidth := 800, mWindowHeight := 600\<rparr>;
          g2 = g1\<lparr>mLander := Some Lander_new, mTerrain := Some (Terrain_new ext),
                  mPhysics := Some Physics_new, mInputHandler := True\<rparr>;
          g3 = (if m3DMode_g g2 then
                  (if USE_OPENGL ext then g2\<lparr>mRenderer := True\<rparr>
                   else g2\<lparr>m3DMode_g := False, mRenderer := True\<rparr>)
                else g2\<lparr>mRenderer := True\<rparr>)
      in if \<not> renderer_ok then Some (False, g3)
         else
           (let g4 = g3\<lparr>mPhysics := Some (RegisterTerrain (RegisterLander Physics_new))\<rparr>;
                g5 = (if m3DMode_g g4 then
                        g4\<lparr>mTerrain := Some (Generate3D ext (Terrain_new ext) (mWindowWidth g4)
                                                (mWindowWidth g4) (mWindowHeight g4))\<rparr>
                      else
                        g4\<lparr>mTerrain := Some (Generate2D ext (Terrain_new ext) (mWindowWidth g4)
                                                (mWindowHeight g4))\<rparr>)
            in case Game_Reset ext g5 of
                 None \<Rightarrow> None
               | Some g6 \<Rightarrow> Some (True, g6\<lparr>mIsRunning := True\<rparr>)))"

text \<open>
  \<^verbatim>\<open>Game::SetDifficulty(Difficulty difficulty)\<close>. \<^verbatim>\<open>Physics::SetGravity\<close> is declared in the
  missing \<^verbatim>\<open>Physics.h\<close> and is read as the assignment to \<^verbatim>\<open>mGravity\<close>.
\<close>

definition Game_SetDifficulty :: "'t externals \<Rightarrow> Difficulty \<Rightarrow> 't game \<Rightarrow> 't game option" where
  "Game_SetDifficulty ext difficulty g =
     (let g1 = g\<lparr>mDifficulty := difficulty\<rparr>
      in case mPhysics g1 of
           None \<Rightarrow> None
         | Some ph \<Rightarrow>
             (case mLander g1 of
                None \<Rightarrow> None
              | Some l \<Rightarrow>
                  (let ph1 = (case mDifficulty g1 of
                                EASY \<Rightarrow> ph\<lparr>mGravity := 1\<rparr>
                              | NORMAL \<Rightarrow> ph\<lparr>mGravity := 162 / 100\<rparr>
                              | HARD \<Rightarrow> ph\<lparr>mGravity := 2\<rparr>);
                       l1 = Lander_ApplyThrust l 0
                   in Game_Reset ext (g1\<lparr>mPhysics := Some ph1, mLander := Some l1\<rparr>))))"

text \<open>\<^verbatim>\<open>Game::SetRenderingMode(bool use3D)\<close>.\<close>

definition Game_SetRenderingMode :: "'t externals \<Rightarrow> bool \<Rightarrow> bool \<Rightarrow> 't game \<Rightarrow> 't game option" where
  "Game_SetRenderingMode ext renderer_ok use3D g =
     (if m3DMode_g g \<noteq> use3D then
        (let g1 = g\<lparr>m3DMode_g := use3D\<rparr>
         in if mIsRunning g1 then
              (case Game_Initialize ext renderer_ok (Game_Shutdown g1) of
                 None \<Rightarrow> None
               | Some (b, g2) \<Rightarrow> Some g2)
            else Some g1)
      else Some g)"

text \<open>
  What \<^verbatim>\<open>Game::ProcessInput()\<close> reads from the input handler after polling; the key events
  that the polling may deliver to \<^verbatim>\<open>Game::OnKeyDown\<close> are separate calls of \<open>Game_OnKeyDown\<close>.
\<close>

record input =
  IsStartActive :: bool
  IsThrustActive :: bool
  IsRotateLeftActive :: bool
  IsRotateRightActive :: bool
  IsResetActive :: bool
  IsQuitActive :: bool

text \<open>
  The branch of \<^verbatim>\<open>Game::ProcessInput()\<close> for the state \<^verbatim>\<open>FLYING\<close>; \<^verbatim>\<open>mLander\<close> is
  dereferenced without a null check.
\<close>

definition ProcessInput_flying :: "input \<Rightarrow> 't game \<Rightarrow> 't game option" where
  "ProcessInput_flying inp g =
     (case mLander g of
        None \<Rightarrow> None
      | Some l \<Rightarrow>
          (let (l1, g1) =
                 (if IsThrustActive inp then
                    (let l' = Lander_ApplyThrust l 1;
                         originalFuel = mFuel l';
                         newFuel = originalFuel
                     in (l', if originalFuel > newFuel
                             then g\<lparr>mFuelUsed := mFuelUsed g + (originalFuel - newFuel)\<rparr>
                             else g))
                  else (Lander_ApplyThrust l 0, g));
               l2 = (if IsRotateLeftActive inp then RotateLeft l1 2 else l1);
               l3 = (if IsRotateRightActive inp then RotateRight l2 2 else l2)
           in Some (g1\<lparr>mLander := Some l3\<rparr>)))"

text \<open>\<^verbatim>\<open>Game::ProcessInput()\<close>.\<close>

definition Game_ProcessInput :: "'t externals \<Rightarrow> input \<Rightarrow> 't game \<Rightarrow> 't game option" where
  "Game_ProcessInput ext inp g =
     (if mInputHandler g then
        (case (if mGameState g = READY then
                 Some (if IsStartActive inp then g\<lparr>mGameState := FLYING\<rparr> else g)
               else if mGameState g = FLYING then ProcessInput_flying inp g
               else if mGameState g = LANDED \<or> mGameState g = CRASHED then
                 (if IsResetActive inp then Game_Reset ext g else Some g)
               else Some g) of
           None \<Rightarrow> None
         | Some g1 \<Rightarrow> Some (if IsQuitActive inp then g1\<lparr>mIsRunning := False\<rparr> else g1))
      else Some g)"

text \<open>
  The call \<^verbatim>\<open>mPhysics->Update(deltaTime)\<close> seen from the game. The pointers of the physics
  object, where they are not null, point to the lander and the terrain of the game:
  \<^verbatim>\<open>Game::Initialize\<close> is the only caller of \<^verbatim>\<open>RegisterLander\<close> and \<^verbatim>\<open>RegisterTerrain\<close>, and
  \<^verbatim>\<open>Game::Shutdown\<close> destroys the three objects together.
\<close>

definition physics_frame :: "'t externals \<Rightarrow> physics \<Rightarrow> real \<Rightarrow> 't game \<Rightarrow> 't game" where
  "physics_frame ext ph deltaTime g =
     (case mLander g of
        None \<Rightarrow> g
      | Some l \<Rightarrow>
          (case mTerrain g of
             None \<Rightarrow> g
           | Some t \<Rightarrow> g\<lparr>mLander := Some (Physics_Update ext ph t l deltaTime)\<rparr>))"

text \<open>
  \<^verbatim>\<open>Game::Update(float deltaTime)\<close>. The fall-timer block only prints; it dereferences
  \<^verbatim>\<open>mLander\<close> when the state is \<^verbatim>\<open>FLYING\<close>. The camera block only calls the renderer.
\<close>

definition Game_Update :: "'t externals \<Rightarrow> real \<Rightarrow> 't game \<Rightarrow> 't game option" where
  "Game_Update ext deltaTime g =
     (let g3 =
            (if mGameState g = FLYING then
               (let g1 = (case mPhysics g of
                            Some ph \<Rightarrow> physics_frame ext ph deltaTime g
                          | None \<Rightarrow> g);
                    g2 = (case mLander g1 of
                            Some l \<Rightarrow>
                              (let l1 = Lander_Update l deltaTime;
                                   g' = g1\<lparr>mLander := Some l1\<rparr>
                               in if mLanded l1 then
                                    (let g'' = g'\<lparr>mGameState := LANDED\<rparr>;
                                         fuelRemaining = mFuel l1 / mMaxFuel l1
                                     in g''\<lparr>mScore := fuelRemaining * 1000\<rparr>)
                                  else if mCrashed l1 then
                                    g'\<lparr>mGameState := CRASHED, mScore := 0\<rparr>
                                  else g')
                          | None \<Rightarrow> g1)
                in g2\<lparr>mElapsedTime := mElapsedTime g2 + deltaTime\<rparr>)
             else g)
      in if mGameState g3 = FLYING \<and> mLander g3 = None then None
         else
           (case mTerrain g3 of
              Some t \<Rightarrow> Some (g3\<lparr>mTerrain := Some (Terrain_Update ext t deltaTime)\<rparr>)
            | None \<Rightarrow> Some g3))"

text \<open>\<^verbatim>\<open>Game::OnKeyDown(int keyCode)\<close>; \<open>SDLK_other\<close> stands for every key without a case.\<close>

datatype keycode = SDLK_r | SDLK_ESCAPE | SDLK_1 | SDLK_2 | SDLK_3 | SDLK_TAB | SDLK_other

definition Game_OnKeyDown :: "'t externals \<Rightarrow> bool \<Rightarrow> keycode \<Rightarrow> 't game \<Rightarrow> 't game option" where
  "Game_OnKeyDown ext renderer_ok keyCode g =
     (case keyCode of
        SDLK_r \<Rightarrow> Game_Reset ext g
      | SDLK_ESCAPE \<Rightarrow> Some (g\<lparr>mIsRunning := False\<rparr>)
      | SDLK_1 \<Rightarrow> Game_SetDifficulty ext EASY g
      | SDLK_2 \<Rightarrow> Game_SetDifficulty ext NORMAL g
      | SDLK_3 \<Rightarrow> Game_SetDifficulty ext HARD g
      | SDLK_TAB \<Rightarrow> Game_SetRenderingMode ext renderer_ok (\<not> m3DMode_g g) g
      | SDLK_other \<Rightarrow> Some g)"

subsection \<open>Reachable states of the game\<close>

text \<open>
  The states a game object can be in: the constructed object, and every state that a call
  of a public method without undefined behaviour leads to from such a state.
\<close>

inductive reachable :: "'t externals \<Rightarrow> 't game \<Rightarrow> bool" for ext :: "'t externals" where
  r_new: "reachable ext Game_new"
| r_Initialize: "reachable ext g \<Longrightarrow> Game_Initialize ext ok g = Some (b, g') \<Longrightarrow> reachable ext g'"
| r_Shutdown: "reachable ext g \<Longrightarrow> reachable ext (Game_Shutdown g)"
| r_ProcessInput: "reachable ext g \<Longrightarrow> Game_ProcessInput ext inp g = Some g' \<Longrightarrow> reachable ext g'"
| r_Update: "reachable ext g \<Longrightarrow> Game_Update ext deltaTime g = Some g' \<Longrightarrow> reachable ext g'"
| r_Reset: "reachable ext g \<Longrightarrow> Game_Reset ext g = Some g' \<Longrightarrow> reachable ext g'"
| r_SetDifficulty: "reachable ext g \<Longrightarrow> Game_SetDifficulty ext d g = Some g' \<Longrightarrow> reachable ext g'"
| r_SetRenderingMode:
    "reachable ext g \<Longrightarrow> Game_SetRenderingMode ext ok use3D g = Some g' \<Longrightarrow> reachable ext g'"
| r_OnKeyDown: "reachable ext g \<Longrightarrow> Game_OnKeyDown ext ok k g = Some g' \<Longrightarrow> reachable ext g'"


subsection \<open>Abbreviations for the steps of the physics update\<close>

text \<open>
  The three force applications of \<^verbatim>\<open>Update2D\<close> and \<^verbatim>\<open>Update3D\<close> in their order, for the
  time step \<open>d\<close> that is passed to them.
\<close>

definition forces :: "physics \<Rightarrow> lander \<Rightarrow> real \<Rightarrow> lander" where
  "forces ph l d = Physics_ApplyDrag ph (Physics_ApplyThrust ph (Physics_ApplyGravity ph l d) d) d"

text \<open>
  The position integration of \<^verbatim>\<open>Update2D\<close> and of \<^verbatim>\<open>Update3D\<close> for a lander in flight:
  \<open>new position = old position + velocity * d\<close>.
\<close>

definition integrate2D :: "'t externals \<Rightarrow> lander \<Rightarrow> real \<Rightarrow> lander" where
  "integrate2D ext l d =
     SetPosition2 ext l (idx0 (mPosition l) + idx0 (mVelocity l) * d)
       (idx1 (mPosition l) + idx1 (mVelocity l) * d)"

definition integrate3D :: "lander \<Rightarrow> real \<Rightarrow> lander" where
  "integrate3D l d =
     SetPosition l (idx0 (mPosition l) + idx0 (mVelocity l) * d)
       (idx1 (mPosition l) + idx1 (mVelocity l) * d)
       (idx2 (mPosition l) + idx2 (mVelocity l) * d)"

subsection \<open>Invariants of the lander\<close>

text \<open>
  What the methods of \<^verbatim>\<open>Lander\<close> keep true of the thrust and fuel members: the thrust level
  is in \<open>[0, 1]\<close>, the consumption rate and the fuel are not negative, and thrust is active
  only while fuel is left.
\<close>

definition lander_ok :: "lander \<Rightarrow> bool" where
  "lander_ok l =
     (0 \<le> mThrustLevel l \<and> mThrustLevel l \<le> 1 \<and> 0 \<le> mFuelConsumptionRate l \<and>
      0 \<le> mFuel l \<and> (if mThrustActive l then 0 < mFuel l else True))"

text \<open>
  What the game keeps true of the motion members: the rotation about the x axis and the
  z velocity stay zero (only \<^verbatim>\<open>Physics::ApplyThrust\<close> in 3D mode writes \<^verbatim>\<open>velocity[2]\<close>
  in flight, from the sine of that rotation), the landed and the crashed flag are not
  both set, and a lander that has landed or crashed has no velocity.
\<close>

definition lander_still :: "lander \<Rightarrow> bool" where
  "lander_still l =
     (idx0 (mRotation l) = 0 \<and> idx2 (mVelocity l) = 0 \<and> \<not> (mLanded l \<and> mCrashed l) \<and>
      (if mLanded l \<or> mCrashed l then mVelocity l = vec3_zero else True))"

subsection \<open>Reachable states of the lander\<close>

text \<open>
  The states the lander of a game can be in: the constructed lander, and whatever the calls
  that \<^verbatim>\<open>Game\<close> and \<^verbatim>\<open>Physics\<close> make on it lead to. \<open>lr_Reset\<close> is the sequence
  \<^verbatim>\<open>Reset(); SetActive(true); SetPosition(...)\<close> of \<^verbatim>\<open>Game::Reset\<close>.
\<close>

inductive lander_reach :: "'t externals \<Rightarrow> lander \<Rightarrow> bool" for ext :: "'t externals" where
  lr_new: "lander_reach ext Lander_new"
| lr_ApplyThrust: "lander_reach ext l \<Longrightarrow> lander_reach ext (Lander_ApplyThrust l amount)"
| lr_RotateLeft: "lander_reach ext l \<Longrightarrow> lander_reach ext (RotateLeft l amount)"
| lr_RotateRight: "lander_reach ext l \<Longrightarrow> lander_reach ext (RotateRight l amount)"
| lr_Physics: "lander_reach ext l \<Longrightarrow> lander_reach ext (Physics_Update ext ph t l deltaTime)"
| lr_Update: "lander_reach ext l \<Longrightarrow> lander_reach ext (Lander_Update l deltaTime)"
| lr_Reset: "lander_reach ext l \<Longrightarrow>
     lander_reach ext (SetPosition ((Lander_Reset l)\<lparr>mActive := True\<rparr>) x y z)"

text \<open>The lander of the game, if there is one, is in such a state.\<close>

definition game_lander_reach :: "'t externals \<Rightarrow> 't game \<Rightarrow> bool" where
  "game_lander_reach ext g = (case mLander g of None \<Rightarrow> True | Some l \<Rightarrow> lander_reach ext l)"

text \<open>
  The lander with the members that the physics writes (position, velocity, landed,
  crashed) blanked out: two landers with the same \<open>rest\<close> agree on every other member.
\<close>

definition rest :: "lander \<Rightarrow> lander" where
  "rest l = l\<lparr>mPosition := vec3_zero, mVelocity := vec3_zero, mLanded := False, mCrashed := False\<rparr>"

subsection \<open>A concrete instance for examples\<close>

text \<open>
  An instance of the parameters on which the model can be evaluated: a flat terrain at
  height \<open>ground\<close> (y grows downwards, the lander touches when its lower edge
  \<open>y + height / 2\<close> reaches the ground), on which a touchdown is valid when the vertical
  speed is at most \<open>safe\<close>. The terrain has no state.
\<close>

definition flat_ext :: "real \<Rightarrow> real \<Rightarrow> unit externals" where
  "flat_ext ground safe =
     \<lparr>SetPosition_z = 0,
      USE_OPENGL = False,
      Terrain_new = (),
      Terrain_Update = (\<lambda>t dt. t),
      Generate2D = (\<lambda>t w h. t),
      Generate3D = (\<lambda>t w len h. t),
      CheckCollision2D = (\<lambda>t l h. if ground \<le> idx1 (mPosition l) + mHeight l / 2
                                    then (True, ground) else (False, h)),
      IsValidLanding2D = (\<lambda>t l. \<bar>idx1 (mVelocity l)\<bar> \<le> safe),
      CheckCollision3D = (\<lambda>t l h. if ground \<le> idx1 (mPosition l) + mHeight l / 2
                                    then (True, ground) else (False, h)),
      IsValidLanding3D = (\<lambda>t l. \<bar>idx1 (mVelocity l)\<bar> \<le> safe)\<rparr>"

text \<open>A physics object with both pointers registered, in 2D and in 3D mode.\<close>

definition demo_physics :: "bool \<Rightarrow> physics" where
  "demo_physics mode3D = (RegisterTerrain (RegisterLander Physics_new))\<lparr>m3DMode := mode3D\<rparr>"

text \<open>The same in 2D mode, with the time scale set to 2.\<close>

definition demo_physics_fast :: physics where
  "demo_physics_fast = (demo_physics False)\<lparr>mTimeScale := 2\<rparr>"

text \<open>A lander in flight: the new lander, moved to height 100 and falling with speed 5.\<close>

definition demo_lander :: lander where
  "demo_lander = (SetPosition Lander_new 400 100 0)\<lparr>mVelocity := \<lparr>idx0 = 1, idx1 = 5, idx2 = 0\<rparr>\<rparr>"

text \<open>A lander with thrust fully on and half a unit of fuel left.\<close>

definition thirsty_lander :: lander where
  "thirsty_lander = (Lander_ApplyThrust demo_lander 1)\<lparr>mFuel := 1 / 2\<rparr>"

text \<open>
  The lander and the game as \<^verbatim>\<open>Game::Initialize\<close> leaves them in 2D mode, and the input
  with only the thrust key held.
\<close>

definition demo_start :: lander where
  "demo_start = SetPosition Lander_new 400 100 0"

definition demo_game :: "unit game" where
  "demo_game =
     \<lparr>mGameState = FLYING,
      mDifficulty = NORMAL,
      m3DMode_g = False,
      mScore = 0,
      mElapsedTime = 0,
      mFuelUsed = 0,
      mWindowWidth = 800,
      mWindowHeight = 600,
      mIsRunning = True,
      mLander = Some demo_start,
      mTerrain = Some (),
      mPhysics = Some (demo_physics False),
      mRenderer = True,
      mInputHandler = True\<rparr>"

definition thrust_on :: input where
  "thrust_on =
     \<lparr>IsStartActive = False, IsThrustActive = True, IsRotateLeftActive = False,
      IsRotateRightActive = False, IsResetActive = False, IsQuitActive = False\<rparr>"

text \<open>A game after a crash, with some score and time on the clock.\<close>

definition wrecked_game :: "unit game" where
  "wrecked_game =
     demo_game\<lparr>mGameState := CRASHED, mScore := 5, mElapsedTime := 3,
               mLander := Some (thirsty_lander\<lparr>mCrashed := True\<rparr>)\<rparr>"

section \<open>Properties\<close>

subsection \<open>Helper lemmas\<close>

lemma std_max_eq: "std_max a b = max a b"
  by (simp add: std_max_def max_def)

lemma std_min_eq: "std_min a b = min a b"
  by (simp add: std_min_def min_def)

text \<open>The force applications change the velocity only.\<close>

lemma fold_preserves:
  assumes "\<And>i l. P (f i l) = P l"
  shows "P (fold f xs l) = P l"
  using assms by (induction xs arbitrary: l) simp_all

lemma drag_iteration_fields:
  "mLanded (drag_iteration ph d c a i l) = mLanded l"
  "mCrashed (drag_iteration ph d c a i l) = mCrashed l"
  "mPosition (drag_iteration ph d c a i l) = mPosition l"
  "mRotation (drag_iteration ph d c a i l) = mRotation l"
  "mHeight (drag_iteration ph d c a i l) = mHeight l"
  by (simp_all add: drag_iteration_def Let_def)

lemma ApplyDrag_fields:
  "mLanded (Physics_ApplyDrag ph l d) = mLanded l"
  "mCrashed (Physics_ApplyDrag ph l d) = mCrashed l"
  "mPosition (Physics_ApplyDrag ph l d) = mPosition l"
  "mRotation (Physics_ApplyDrag ph l d) = mRotation l"
  "mHeight (Physics_ApplyDrag ph l d) = mHeight l"
  unfolding Physics_ApplyDrag_def Let_def
  by (simp_all add: fold_preserves [where P = mLanded] fold_preserves [where P = mCrashed]
      fold_preserves [where P = mPosition] fold_preserves [where P = mRotation]
      fold_preserves [where P = mHeight] drag_iteration_fields)

lemma ApplyGravity_fields:
  "mLanded (Physics_ApplyGravity ph l d) = mLanded l"
  "mCrashed (Physics_ApplyGravity ph l d) = mCrashed l"
  "mPosition (Physics_ApplyGravity ph l d) = mPosition l"
  "mRotation (Physics_ApplyGravity ph l d) = mRotation l"
  "mHeight (Physics_ApplyGravity ph l d) = mHeight l"
  by (simp_all add: Physics_ApplyGravity_def Let_def)

lemma ApplyThrust_fields:
  "mLanded (Physics_ApplyThrust ph l d) = mLanded l"
  "mCrashed (Physics_ApplyThrust ph l d) = mCrashed l"
  "mPosition (Physics_ApplyThrust ph l d) = mPosition l"
  "mRotation (Physics_ApplyThrust ph l d) = mRotation l"
  "mHeight (Physics_ApplyThrust ph l d) = mHeight l"
  by (simp_all add: Physics_ApplyThrust_def Let_def)

lemma forces_fields:
  "mLanded (forces ph l d) = mLanded l"
  "mCrashed (forces ph l d) = mCrashed l"
  "mPosition (forces ph l d) = mPosition l"
  "mRotation (forces ph l d) = mRotation l"
  "mHeight (forces ph l d) = mHeight l"
  by (simp_all add: forces_def ApplyDrag_fields ApplyThrust_fields ApplyGravity_fields)

lemma forces_steps_landed:
  assumes "mLanded l \<or> mCrashed l"
  shows "Physics_ApplyGravity ph l d = l" and "Physics_ApplyThrust ph l d = l"
    and "Physics_ApplyDrag ph l d = l"
  using assms
  by (auto simp: Physics_ApplyGravity_def Physics_ApplyThrust_def Physics_ApplyDrag_def)

lemma forces_landed:
  assumes "mLanded l \<or> mCrashed l"
  shows "forces ph l d = l"
  by (simp add: forces_def forces_steps_landed [OF assms])

lemma CheckCollisions_landed:
  assumes "mLanded l \<or> mCrashed l"
  shows "CheckCollisions2D ext ph t l = (False, l)" and "CheckCollisions3D ext ph t l = (False, l)"
  using assms by (auto simp: CheckCollisions2D_def CheckCollisions3D_def)

text \<open>
  The two update paths, for a lander in flight and for one that has landed or crashed.
\<close>

lemma Update2D_flying:
  assumes "mLander_reg ph" "mTerrain_reg ph" "\<not> mLanded l" "\<not> mCrashed l"
  shows "Update2D ext ph t l d =
    snd (CheckCollisions2D ext ph t (integrate2D ext (forces ph l (d * mTimeScale ph)) d))"
  using assms
  by (simp add: Update2D_def Let_def integrate2D_def forces_fields forces_def [symmetric])

lemma Update3D_flying:
  assumes "mLander_reg ph" "mTerrain_reg ph" "\<not> mLanded l" "\<not> mCrashed l"
  shows "Update3D ext ph t l d =
    snd (CheckCollisions3D ext ph t (integrate3D (forces ph l d) d))"
  using assms
  by (simp add: Update3D_def Let_def integrate3D_def forces_fields forces_def [symmetric])

lemma Update2D_landed:
  assumes "mLanded l \<or> mCrashed l"
  shows "Update2D ext ph t l d = l"
  using assms
  by (auto simp: Update2D_def Let_def forces_steps_landed [OF assms]
      CheckCollisions_landed [OF assms])

lemma Update3D_landed:
  assumes "mLanded l \<or> mCrashed l"
  shows "Update3D ext ph t l d = l"
  using assms
  by (auto simp: Update3D_def Let_def forces_steps_landed [OF assms]
      CheckCollisions_landed [OF assms])

lemma Physics_Update_landed:
  assumes "mLanded l \<or> mCrashed l"
  shows "Physics_Update ext ph t l d = l"
  using assms by (simp add: Physics_Update_def Update2D_landed Update3D_landed)

text \<open>The collision check, for a lander in flight.\<close>

lemma CheckCollisions2D_cases:
  assumes "mLander_reg ph" "mTerrain_reg ph" "\<not> mLanded l" "\<not> mCrashed l"
    and "CheckCollision2D ext t l 0 = (hit, h)"
  shows "CheckCollisions2D ext ph t l =
     (if hit then
        (True, (SetPosition2 ext l (idx0 (mPosition l)) (h - mHeight l / 2))
           \<lparr>mLanded := IsValidLanding2D ext t (SetPosition2 ext l (idx0 (mPosition l)) (h - mHeight l / 2)),
            mCrashed := \<not> IsValidLanding2D ext t (SetPosition2 ext l (idx0 (mPosition l)) (h - mHeight l / 2)),
            mVelocity := (mVelocity l)\<lparr>idx1 := 0, idx0 := 0\<rparr>\<rparr>)
      else (False, l))"
  using assms
  by (simp add: CheckCollisions2D_def Let_def SetPosition2_def SetPosition_def)

lemma CheckCollisions3D_cases:
  assumes "mLander_reg ph" "mTerrain_reg ph" "\<not> mLanded l" "\<not> mCrashed l"
    and "CheckCollision3D ext t l 0 = (hit, h)"
  shows "CheckCollisions3D ext ph t l =
     (if hit then
        (True, (SetPosition l (idx0 (mPosition l)) (h - mHeight l / 2) (idx2 (mPosition l)))
           \<lparr>mLanded := IsValidLanding3D ext t (SetPosition l (idx0 (mPosition l)) (h - mHeight l / 2) (idx2 (mPosition l))),
            mCrashed := \<not> IsValidLanding3D ext t (SetPosition l (idx0 (mPosition l)) (h - mHeight l / 2) (idx2 (mPosition l))),
            mVelocity := vec3_zero\<rparr>)
      else (False, l))"
  using assms
  by (simp add: CheckCollisions3D_def Let_def SetPosition_def vec3_zero_def)

lemma CheckCollisions2D_still_flying:
  assumes "\<not> mLanded (snd (CheckCollisions2D ext ph t l))"
    and "\<not> mCrashed (snd (CheckCollisions2D ext ph t l))"
  shows "snd (CheckCollisions2D ext ph t l) = l"
  using assms
  by (auto simp: CheckCollisions2D_def Let_def SetPosition2_def SetPosition_def
      split: if_splits prod.splits)

lemma CheckCollisions3D_still_flying:
  assumes "\<not> mLanded (snd (CheckCollisions3D ext ph t l))"
    and "\<not> mCrashed (snd (CheckCollisions3D ext ph t l))"
  shows "snd (CheckCollisions3D ext ph t l) = l"
  using assms
  by (auto simp: CheckCollisions3D_def Let_def SetPosition_def
      split: if_splits prod.splits)

text \<open>No method of the physics reads \<^verbatim>\<open>mTimeScale\<close> except \<^verbatim>\<open>Update2D\<close>.\<close>

lemma drag_iteration_time_scale:
  "drag_iteration (ph\<lparr>mTimeScale := s\<rparr>) d c a i l = drag_iteration ph d c a i l"
  by (simp add: drag_iteration_def)

lemma time_scale_unread:
  "Physics_ApplyGravity (ph\<lparr>mTimeScale := s\<rparr>) l d = Physics_ApplyGravity ph l d"
  "Physics_ApplyThrust (ph\<lparr>mTimeScale := s\<rparr>) l d = Physics_ApplyThrust ph l d"
  "Physics_ApplyDrag (ph\<lparr>mTimeScale := s\<rparr>) l d = Physics_ApplyDrag ph l d"
  "CheckCollisions3D ext (ph\<lparr>mTimeScale := s\<rparr>) t l = CheckCollisions3D ext ph t l"
     apply (simp add: Physics_ApplyGravity_def)
    apply (simp add: Physics_ApplyThrust_def)
   apply (simp add: Physics_ApplyDrag_def drag_iteration_time_scale [abs_def])
  apply (simp add: CheckCollisions3D_def)
  done

lemma forces_time_scale: "forces (ph\<lparr>mTimeScale := s\<rparr>) l d = forces ph l d"
  by (simp add: forces_def time_scale_unread)

lemma Update3D_time_scale:
  "Update3D ext (ph\<lparr>mTimeScale := s\<rparr>) t l d = Update3D ext ph t l d"
  by (simp add: Update3D_def time_scale_unread)

lemma Update2D_no_collision:
  assumes "mLander_reg ph" and "mTerrain_reg ph"
    and "\<not> mLanded (Update2D ext ph t l d)" and "\<not> mCrashed (Update2D ext ph t l d)"
  shows "Update2D ext ph t l d = integrate2D ext (forces ph l (d * mTimeScale ph)) d"
proof -
  have fl: "\<not> mLanded l" "\<not> mCrashed l"
    using assms(3,4) Update2D_landed [of l ext ph t d] by auto
  note eq = Update2D_flying [OF assms(1,2) fl, of ext t d]
  show ?thesis
    using assms(3,4) unfolding eq by (rule CheckCollisions2D_still_flying)
qed

lemma Update3D_no_collision:
  assumes "mLander_reg ph" and "mTerrain_reg ph"
    and "\<not> mLanded (Update3D ext ph t l d)" and "\<not> mCrashed (Update3D ext ph t l d)"
  shows "Update3D ext ph t l d = integrate3D (forces ph l d) d"
proof -
  have fl: "\<not> mLanded l" "\<not> mCrashed l"
    using assms(3,4) Update3D_landed [of l ext ph t d] by auto
  note eq = Update3D_flying [OF assms(1,2) fl, of ext t d]
  show ?thesis
    using assms(3,4) unfolding eq by (rule CheckCollisions3D_still_flying)
qed

text \<open>Evaluation of the concrete instance.\<close>

lemma demo_physics_simps:
  "mLander_reg (demo_physics m)" "mTerrain_reg (demo_physics m)"
  "m3DMode (demo_physics m) = m" "mGravity (demo_physics m) = 162 / 100"
  "mAirDensity (demo_physics m) = 0" "mTimeScale (demo_physics m) = 1"
  by (simp_all add: demo_physics_def RegisterTerrain_def RegisterLander_def Physics_new_def)

lemma demo_lander_simps:
  "mLanded demo_lander = False" "mCrashed demo_lander = False"
  "mPosition demo_lander = \<lparr>idx0 = 400, idx1 = 100, idx2 = 0\<rparr>"
  "mVelocity demo_lander = \<lparr>idx0 = 1, idx1 = 5, idx2 = 0\<rparr>"
  "mHeight demo_lander = 30" "mThrustActive demo_lander = False"
  by (simp_all add: demo_lander_def SetPosition_def Lander_new_def)

lemma flat_ext_simps:
  "SetPosition_z (flat_ext g s) = 0"
  "CheckCollision2D (flat_ext g s) t l h =
     (if g \<le> idx1 (mPosition l) + mHeight l / 2 then (True, g) else (False, h))"
  "CheckCollision3D (flat_ext g s) t l h =
     (if g \<le> idx1 (mPosition l) + mHeight l / 2 then (True, g) else (False, h))"
  "IsValidLanding2D (flat_ext g s) t l = (\<bar>idx1 (mVelocity l)\<bar> \<le> s)"
  "IsValidLanding3D (flat_ext g s) t l = (\<bar>idx1 (mVelocity l)\<bar> \<le> s)"
  "Terrain_new (flat_ext g s) = ()"
  "USE_OPENGL (flat_ext g s) = False"
  by (simp_all add: flat_ext_def)

lemma demo_physics_fast_simps:
  "mLander_reg demo_physics_fast" "mTerrain_reg demo_physics_fast"
  "m3DMode demo_physics_fast = False" "mGravity demo_physics_fast = 162 / 100"
  "mAirDensity demo_physics_fast = 0" "mTimeScale demo_physics_fast = 2"
  by (simp_all add: demo_physics_fast_def demo_physics_simps)

lemma demo_forces:
  assumes "mAirDensity ph = 0"
  shows "forces ph demo_lander d =
    demo_lander\<lparr>mVelocity := \<lparr>idx0 = 1, idx1 = 5 + mGravity ph * d * (1031 / 100), idx2 = 0\<rparr>\<rparr>"
  using assms
  by (simp add: forces_def Physics_ApplyGravity_def Physics_ApplyThrust_def Physics_ApplyDrag_def
      demo_lander_def Lander_new_def SetPosition_def)

text \<open>
  The lander of a reachable game is a reachable lander: one lemma for each method of
  \<^verbatim>\<open>Game\<close>.
\<close>

lemma game_lander_reach_upd:
  "game_lander_reach ext (g\<lparr>mIsRunning := b\<rparr>) = game_lander_reach ext g"
  "game_lander_reach ext (g\<lparr>mGameState := st\<rparr>) = game_lander_reach ext g"
  by (simp_all add: game_lander_reach_def)

lemma Game_Reset_reach:
  assumes "game_lander_reach ext g" and "Game_Reset ext g = Some g'"
  shows "game_lander_reach ext g'"
  using assms
  by (auto simp: game_lander_reach_def Game_Reset_def Let_def SetPosition2_def
      split: option.splits if_splits intro: lander_reach.intros)

lemma Game_Shutdown_reach: "game_lander_reach ext (Game_Shutdown g)"
  by (simp add: game_lander_reach_def Game_Shutdown_def)

lemma Game_Initialize_reach:
  assumes "Game_Initialize ext ok g = Some (b, g')"
  shows "game_lander_reach ext g'"
  using assms
  by (auto simp: Game_Initialize_def Game_Reset_def Let_def SetPosition2_def
      game_lander_reach_def split: option.splits if_splits
      intro!: lr_new lr_Reset)

lemma Game_SetDifficulty_reach:
  assumes "game_lander_reach ext g" and "Game_SetDifficulty ext d g = Some g'"
  shows "game_lander_reach ext g'"
  using assms
  by (auto simp: Game_SetDifficulty_def Game_Reset_def Let_def SetPosition2_def
      game_lander_reach_def split: option.splits if_splits
      intro!: lr_ApplyThrust lr_Reset)

lemma Game_SetRenderingMode_reach:
  assumes "game_lander_reach ext g" and "Game_SetRenderingMode ext ok use3D g = Some g'"
  shows "game_lander_reach ext g'"
proof (cases "m3DMode_g g \<noteq> use3D \<and> mIsRunning g")
  case True
  with assms(2) obtain b where "Game_Initialize ext ok (Game_Shutdown (g\<lparr>m3DMode_g := use3D\<rparr>)) = Some (b, g')"
    by (auto simp: Game_SetRenderingMode_def Let_def split: option.splits)
  then show ?thesis by (rule Game_Initialize_reach)
next
  case False
  with assms show ?thesis
    by (auto simp: Game_SetRenderingMode_def Let_def game_lander_reach_def split: if_splits)
qed

lemma ProcessInput_flying_reach:
  assumes "game_lander_reach ext g" and "ProcessInput_flying inp g = Some g'"
  shows "game_lander_reach ext g'"
  using assms
  by (auto simp: ProcessInput_flying_def Let_def game_lander_reach_def
      split: option.splits if_splits intro!: lander_reach.intros)

lemma Game_ProcessInput_reach:
  assumes "game_lander_reach ext g" and "Game_ProcessInput ext inp g = Some g'"
  shows "game_lander_reach ext g'"
proof -
  from assms(2) obtain g1 where g1: "g' = g1 \<or> g' = g1\<lparr>mIsRunning := False\<rparr>"
    and "g1 = g \<or> g1 = g\<lparr>mGameState := FLYING\<rparr> \<or> ProcessInput_flying inp g = Some g1
        \<or> Game_Reset ext g = Some g1"
    by (auto simp: Game_ProcessInput_def split: if_splits option.splits)
  with assms(1) have "game_lander_reach ext g1"
    by (auto simp: game_lander_reach_upd dest: ProcessInput_flying_reach Game_Reset_reach)
  with g1 show ?thesis
    by (auto simp: game_lander_reach_upd)
qed

lemma Game_Update_reach:
  assumes "game_lander_reach ext g" and "Game_Update ext deltaTime g = Some g'"
  shows "game_lander_reach ext g'"
  using assms
  by (auto simp: Game_Update_def physics_frame_def Let_def game_lander_reach_def
      split: option.splits if_splits intro!: lr_Physics lr_Update)

lemma Game_OnKeyDown_reach:
  assumes "game_lander_reach ext g" and "Game_OnKeyDown ext ok k g = Some g'"
  shows "game_lander_reach ext g'"
  using assms
  by (cases k)
    (auto simp: Game_OnKeyDown_def game_lander_reach_upd
      dest: Game_Reset_reach Game_SetDifficulty_reach Game_SetRenderingMode_reach)

lemma reachable_lander_reach:
  assumes "reachable ext g"
  shows "game_lander_reach ext g"
  using assms
proof (induction rule: reachable.induct)
  case r_new
  show ?case by (simp add: game_lander_reach_def Game_new_def)
qed (blast intro: Game_Initialize_reach Game_Shutdown_reach Game_ProcessInput_reach
    Game_Update_reach Game_Reset_reach Game_SetDifficulty_reach Game_SetRenderingMode_reach
    Game_OnKeyDown_reach)+

text \<open>The physics leaves every member but position, velocity, landed and crashed alone.\<close>

lemma fold_invariant:
  assumes "\<And>i l. P l \<Longrightarrow> P (f i l)" and "P l"
  shows "P (fold f xs l)"
  using assms by (induction xs arbitrary: l) simp_all

lemma rest_forces:
  "rest (Physics_ApplyGravity ph l d) = rest l"
  "rest (Physics_ApplyThrust ph l d) = rest l"
  "rest (Physics_ApplyDrag ph l d) = rest l"
proof -
  show "rest (Physics_ApplyGravity ph l d) = rest l"
    by (simp add: rest_def Physics_ApplyGravity_def Let_def)
  show "rest (Physics_ApplyThrust ph l d) = rest l"
    by (simp add: rest_def Physics_ApplyThrust_def Let_def)
  have "rest (drag_iteration ph d c a i l') = rest l'" for c a i l'
    by (simp add: rest_def drag_iteration_def Let_def)
  then show "rest (Physics_ApplyDrag ph l d) = rest l"
    by (simp add: Physics_ApplyDrag_def Let_def fold_preserves [where P = rest])
qed

lemma rest_SetPosition:
  "rest (SetPosition l x y z) = rest l" "rest (SetPosition2 ext l x y) = rest l"
  by (simp_all add: rest_def SetPosition_def SetPosition2_def)

lemma rest_CheckCollisions:
  "rest (snd (CheckCollisions2D ext ph t l)) = rest l"
  "rest (snd (CheckCollisions3D ext ph t l)) = rest l"
  by (simp_all add: rest_def CheckCollisions2D_def CheckCollisions3D_def Let_def SetPosition_def
      SetPosition2_def split: prod.splits)

lemma rest_Physics_Update: "rest (Physics_Update ext ph t l d) = rest l"
  by (simp add: Physics_Update_def Update2D_def Update3D_def Let_def rest_forces
      rest_SetPosition rest_CheckCollisions)

lemma lander_ok_rest: "lander_ok (rest l) = lander_ok l"
  by (simp add: lander_ok_def rest_def)

lemma mMaxFuel_rest: "mMaxFuel (rest l) = mMaxFuel l"
  by (simp add: rest_def)

lemma lander_reach_ok:
  assumes "lander_reach ext l"
  shows "lander_ok l \<and> mMaxFuel l = 1000"
  using assms
proof (induction rule: lander_reach.induct)
  case lr_new
  show ?case by (simp add: lander_ok_def Lander_new_def)
next
  case (lr_ApplyThrust l amount)
  then show ?case
    by (simp add: lander_ok_def Lander_ApplyThrust_def Let_def std_max_eq std_min_eq)
next
  case (lr_RotateLeft l amount)
  then show ?case by (simp add: lander_ok_def RotateLeft_def Let_def)
next
  case (lr_RotateRight l amount)
  then show ?case by (simp add: lander_ok_def RotateRight_def Let_def)
next
  case (lr_Physics l ph t deltaTime)
  then show ?case
    using lander_ok_rest [of "Physics_Update ext ph t l deltaTime"] lander_ok_rest [of l]
      mMaxFuel_rest [of "Physics_Update ext ph t l deltaTime"] mMaxFuel_rest [of l]
    by (simp add: rest_Physics_Update)
next
  case (lr_Update l deltaTime)
  then show ?case
    by (auto simp: lander_ok_def Lander_Update_def Let_def std_max_eq)
next
  case (lr_Reset l x y z)
  then show ?case
    by (simp add: lander_ok_def Lander_Reset_def SetPosition_def SetRotation_def Let_def)
qed

lemma reachable_lander_ok:
  assumes "reachable ext g" and "mLander g = Some l"
  shows "lander_ok l"
  using reachable_lander_reach [OF assms(1)] assms(2) lander_reach_ok [of ext l]
  by (simp add: game_lander_reach_def)

text \<open>The motion invariant of the lander.\<close>

lemma vec3_zero_iff: "v = vec3_zero \<longleftrightarrow> idx0 v = 0 \<and> idx1 v = 0 \<and> idx2 v = 0"
  by (cases v) (simp add: vec3_zero_def)

lemma vec3_zero_simps: "idx0 vec3_zero = 0" "idx1 vec3_zero = 0" "idx2 vec3_zero = 0"
  by (simp_all add: vec3_zero_def)

lemma drag_iteration_z:
  assumes "idx2 (mVelocity l) = 0"
  shows "idx2 (mVelocity (drag_iteration ph d c a i l)) = 0"
  using assms by (simp add: drag_iteration_def Let_def vget_def vset_def)

lemma forces_z:
  assumes "idx0 (mRotation l) = 0" and "idx2 (mVelocity l) = 0"
  shows "idx2 (mVelocity (forces ph l d)) = 0"
proof -
  have g: "idx2 (mVelocity (Physics_ApplyGravity ph l d)) = 0"
    using assms(2) by (simp add: Physics_ApplyGravity_def Let_def)
  have "idx2 (mVelocity (Physics_ApplyThrust ph l' d)) = 0"
    if "idx0 (mRotation l') = 0" "idx2 (mVelocity l') = 0" for l'
    using that by (simp add: Physics_ApplyThrust_def Let_def)
  from this [of "Physics_ApplyGravity ph l d"] g assms(1)
  have t: "idx2 (mVelocity (Physics_ApplyThrust ph (Physics_ApplyGravity ph l d) d)) = 0"
    by (simp add: ApplyGravity_fields)
  have "idx2 (mVelocity (Physics_ApplyDrag ph l' d)) = 0" if "idx2 (mVelocity l') = 0" for l'
    unfolding Physics_ApplyDrag_def Let_def using that
    by (auto intro!: fold_invariant [where P = "\<lambda>l. idx2 (mVelocity l) = 0"] drag_iteration_z)
  from this [OF t] show ?thesis by (simp add: forces_def)
qed

lemma lander_still_Physics_Update:
  assumes "lander_still l"
  shows "lander_still (Physics_Update ext ph t l d)"
proof (cases "mLanded l \<or> mCrashed l")
  case True
  then show ?thesis using assms by (simp add: Physics_Update_landed)
next
  case False
  then have fl: "\<not> mLanded l" "\<not> mCrashed l" by simp_all
  from assms have z: "idx0 (mRotation l) = 0" "idx2 (mVelocity l) = 0"
    by (simp_all add: lander_still_def)
  show ?thesis
  proof (cases "mLander_reg ph \<and> mTerrain_reg ph")
    case False
    then show ?thesis using assms
      by (auto simp: Physics_Update_def Update2D_def Update3D_def)
  next
    case True
    then have reg: "mLander_reg ph" "mTerrain_reg ph" by simp_all
    show ?thesis
    proof (cases "m3DMode ph")
      case False
      define l3 where "l3 = integrate2D ext (forces ph l (d * mTimeScale ph)) d"
      have l3: "\<not> mLanded l3" "\<not> mCrashed l3" "idx0 (mRotation l3) = 0" "idx2 (mVelocity l3) = 0"
        using fl z forces_z [OF z, of ph "d * mTimeScale ph"]
        by (simp_all add: l3_def integrate2D_def SetPosition2_def SetPosition_def forces_fields)
      obtain hit h where q: "CheckCollision2D ext t l3 0 = (hit, h)"
        by (cases "CheckCollision2D ext t l3 0")
      have "lander_still (snd (CheckCollisions2D ext ph t l3))"
        unfolding CheckCollisions2D_cases [OF reg l3(1,2) q]
        using l3 by (simp add: lander_still_def SetPosition2_def SetPosition_def vec3_zero_iff
            vec3_zero_simps)
      with False show ?thesis
        by (simp add: Physics_Update_def Update2D_flying [OF reg fl] l3_def)
    next
      case True
      define l3 where "l3 = integrate3D (forces ph l d) d"
      have l3: "\<not> mLanded l3" "\<not> mCrashed l3" "idx0 (mRotation l3) = 0" "idx2 (mVelocity l3) = 0"
        using fl z forces_z [OF z, of ph d]
        by (simp_all add: l3_def integrate3D_def SetPosition_def forces_fields)
      obtain hit h where q: "CheckCollision3D ext t l3 0 = (hit, h)"
        by (cases "CheckCollision3D ext t l3 0")
      have "lander_still (snd (CheckCollisions3D ext ph t l3))"
        unfolding CheckCollisions3D_cases [OF reg l3(1,2) q]
        using l3 by (simp add: lander_still_def SetPosition_def vec3_zero_iff vec3_zero_simps)
      with True show ?thesis
        by (simp add: Physics_Update_def Update3D_flying [OF reg fl] l3_def)
    qed
  qed
qed

lemma lander_reach_still:
  assumes "lander_reach ext l"
  shows "lander_still l"
  using assms
proof (induction rule: lander_reach.induct)
  case lr_new
  show ?case by (simp add: lander_still_def Lander_new_def vec3_zero_def)
next
  case (lr_ApplyThrust l amount)
  then show ?case by (auto simp: lander_still_def Lander_ApplyThrust_def Let_def vec3_zero_simps)
next
  case (lr_RotateLeft l amount)
  then show ?case by (auto simp: lander_still_def RotateLeft_def Let_def vec3_zero_simps)
next
  case (lr_RotateRight l amount)
  then show ?case by (auto simp: lander_still_def RotateRight_def Let_def vec3_zero_simps)
next
  case (lr_Physics l ph t deltaTime)
  then show ?case by (simp add: lander_still_Physics_Update)
next
  case (lr_Update l deltaTime)
  then show ?case by (auto simp: lander_still_def Lander_Update_def Let_def vec3_zero_simps)
next
  case (lr_Reset l x y z)
  then show ?case
    by (auto simp: lander_still_def Lander_Reset_def SetPosition_def SetRotation_def Let_def
        vec3_zero_def)
qed

text \<open>No method of \<^verbatim>\<open>Game\<close> makes \<^verbatim>\<open>mFuelUsed\<close> different from zero.\<close>

lemma Game_Reset_FuelUsed:
  assumes "Game_Reset ext g = Some g'"
  shows "mFuelUsed g' = 0"
  using assms
  by (auto simp: Game_Reset_def Let_def split: option.splits if_splits)

lemma Game_Initialize_FuelUsed:
  assumes "mFuelUsed g = 0" and "Game_Initialize ext ok g = Some (b, g')"
  shows "mFuelUsed g' = 0"
proof (cases ok)
  case False
  with assms show ?thesis
    by (auto simp: Game_Initialize_def Let_def split: if_splits)
next
  case True
  with assms(2) obtain g5 g6 where "Game_Reset ext g5 = Some g6" "g' = g6\<lparr>mIsRunning := True\<rparr>"
    by (auto simp: Game_Initialize_def Let_def split: option.splits if_splits)
  with Game_Reset_FuelUsed [of ext g5 g6] show ?thesis by simp
qed

lemma Game_SetDifficulty_FuelUsed:
  assumes "Game_SetDifficulty ext d g = Some g'"
  shows "mFuelUsed g' = 0"
proof -
  from assms obtain g1 where "Game_Reset ext g1 = Some g'"
    by (auto simp: Game_SetDifficulty_def Let_def split: option.splits)
  then show ?thesis by (rule Game_Reset_FuelUsed)
qed

lemma Game_SetRenderingMode_FuelUsed:
  assumes "mFuelUsed g = 0" and "Game_SetRenderingMode ext ok use3D g = Some g'"
  shows "mFuelUsed g' = 0"
proof (cases "m3DMode_g g \<noteq> use3D \<and> mIsRunning g")
  case True
  with assms(2) obtain b where
    "Game_Initialize ext ok (Game_Shutdown (g\<lparr>m3DMode_g := use3D\<rparr>)) = Some (b, g')"
    by (auto simp: Game_SetRenderingMode_def Let_def split: option.splits)
  moreover have "mFuelUsed (Game_Shutdown (g\<lparr>m3DMode_g := use3D\<rparr>)) = 0"
    using assms(1) by (simp add: Game_Shutdown_def)
  ultimately show ?thesis by (rule Game_Initialize_FuelUsed [rotated])
next
  case False
  with assms show ?thesis
    by (auto simp: Game_SetRenderingMode_def Let_def split: if_splits)
qed

lemma ProcessInput_flying_FuelUsed:
  assumes "ProcessInput_flying inp g = Some g'"
  shows "mFuelUsed g' = mFuelUsed g"
  using assms
  by (auto simp: ProcessInput_flying_def Let_def split: option.splits if_splits)

lemma Game_ProcessInput_FuelUsed:
  assumes "mFuelUsed g = 0" and "Game_ProcessInput ext inp g = Some g'"
  shows "mFuelUsed g' = 0"
proof -
  from assms(2) obtain g1 where g1: "g' = g1 \<or> g' = g1\<lparr>mIsRunning := False\<rparr>"
    and "g1 = g \<or> g1 = g\<lparr>mGameState := FLYING\<rparr> \<or> ProcessInput_flying inp g = Some g1
        \<or> Game_Reset ext g = Some g1"
    by (auto simp: Game_ProcessInput_def split: if_splits option.splits)
  with assms(1) have "mFuelUsed g1 = 0"
    by (auto dest: ProcessInput_flying_FuelUsed Game_Reset_FuelUsed)
  with g1 show ?thesis by auto
qed

lemma Game_Update_FuelUsed:
  assumes "Game_Update ext deltaTime g = Some g'"
  shows "mFuelUsed g' = mFuelUsed g"
  using assms
  by (auto simp: Game_Update_def physics_frame_def Let_def split: option.splits if_splits)

lemma Game_OnKeyDown_FuelUsed:
  assumes "mFuelUsed g = 0" and "Game_OnKeyDown ext ok k g = Some g'"
  shows "mFuelUsed g' = 0"
  using assms
  by (cases k)
    (auto simp: Game_OnKeyDown_def
      dest: Game_Reset_FuelUsed Game_SetDifficulty_FuelUsed Game_SetRenderingMode_FuelUsed)

text \<open>One frame of \<^verbatim>\<open>Game::Update\<close> in the state \<^verbatim>\<open>FLYING\<close>.\<close>

lemma Lander_Update_fields:
  "mLanded (Lander_Update l d) = mLanded l"
  "mCrashed (Lander_Update l d) = mCrashed l"
  "mVelocity (Lander_Update l d) = mVelocity l"
  "mMaxFuel (Lander_Update l d) = mMaxFuel l"
  "mPosition (Lander_Update l d) =
     \<lparr>idx0 = idx0 (mPosition l) + idx0 (mVelocity l) * d,
      idx1 = idx1 (mPosition l) + idx1 (mVelocity l) * d,
      idx2 = idx2 (mPosition l) + idx2 (mVelocity l) * d\<rparr>"
  by (simp_all add: Lander_Update_def Let_def)

lemma Game_Update_flying_lander:
  assumes "mGameState g = FLYING" and "mPhysics g = Some ph" and "mLander g = Some l"
    and "mTerrain g = Some t" and "Game_Update ext deltaTime g = Some g'"
  shows "mLander g' = Some (Lander_Update (Physics_Update ext ph t l deltaTime) deltaTime)"
  using assms
  by (auto simp: Game_Update_def physics_frame_def Let_def split: if_splits)

lemma Game_Update_outcome:
  assumes "mGameState g = FLYING" and "Game_Update ext deltaTime g = Some g'"
    and "mLander g' = Some l'"
  shows "mGameState g' = (if mLanded l' then LANDED else if mCrashed l' then CRASHED else FLYING)"
    and "mScore g' = (if mLanded l' then mFuel l' / mMaxFuel l' * 1000
                      else if mCrashed l' then 0 else mScore g)"
  using assms
  by (auto simp: Game_Update_def physics_frame_def Let_def split: option.splits if_splits)

text \<open>Evaluation of one frame on the concrete game.\<close>

lemma Game_Update_flying_defined:
  assumes "mGameState g = FLYING" and "mLander g = Some l"
  shows "\<exists>g'. Game_Update ext deltaTime g = Some g'"
  using assms
  by (auto simp: Game_Update_def physics_frame_def Let_def split: option.splits)

lemma Physics_Update_fields:
  "mFuel (Physics_Update ext ph t l d) = mFuel l"
  "mMaxFuel (Physics_Update ext ph t l d) = mMaxFuel l"
  "mThrustActive (Physics_Update ext ph t l d) = mThrustActive l"
  "mThrustLevel (Physics_Update ext ph t l d) = mThrustLevel l"
  "mFuelConsumptionRate (Physics_Update ext ph t l d) = mFuelConsumptionRate l"
  using arg_cong [OF rest_Physics_Update [of ext ph t l d], of mFuel]
    arg_cong [OF rest_Physics_Update [of ext ph t l d], of mMaxFuel]
    arg_cong [OF rest_Physics_Update [of ext ph t l d], of mThrustActive]
    arg_cong [OF rest_Physics_Update [of ext ph t l d], of mThrustLevel]
    arg_cong [OF rest_Physics_Update [of ext ph t l d], of mFuelConsumptionRate]
  by (simp_all add: rest_def)

lemma demo_game_Initialize:
  "Game_Initialize (flat_ext ground safe) True Game_new = Some (True, demo_game)"
  by (simp add: Game_Initialize_def Game_Reset_def Game_new_def Let_def flat_ext_simps
      SetPosition2_def SetPosition_def Lander_Reset_def SetRotation_def Lander_new_def
      demo_game_def demo_start_def demo_physics_def vec3_zero_def signed_divide_int_def
      RegisterTerrain_def RegisterLander_def Physics_new_def)

lemma demo_game_reachable: "reachable (flat_ext ground safe) demo_game"
  using r_Initialize [OF r_new demo_game_Initialize] .

lemma demo_game_simps:
  "mGameState demo_game = FLYING" "mLander demo_game = Some demo_start"
  "mTerrain demo_game = Some ()" "mPhysics demo_game = Some (demo_physics False)"
  "mInputHandler demo_game" "mScore demo_game = 0" "mFuelUsed demo_game = 0"
  by (simp_all add: demo_game_def)

lemma demo_start_simps:
  "mLanded demo_start = False" "mCrashed demo_start = False"
  "mPosition demo_start = \<lparr>idx0 = 400, idx1 = 100, idx2 = 0\<rparr>"
  "mVelocity demo_start = vec3_zero"
  "mHeight demo_start = 30" "mThrustActive demo_start = False"
  "mFuel demo_start = 1000" "mMaxFuel demo_start = 1000"
  by (simp_all add: demo_start_def SetPosition_def Lander_new_def)

lemma forces_free_fall:
  assumes "\<not> mLanded l" and "\<not> mCrashed l" and "\<not> mThrustActive l" and "mAirDensity ph \<le> 0"
  shows "forces ph l d =
    l\<lparr>mVelocity := (mVelocity l)\<lparr>idx1 := idx1 (mVelocity l) + mGravity ph * d * (1031 / 100)\<rparr>\<rparr>"
  using assms
  by (simp add: forces_def Physics_ApplyGravity_def Physics_ApplyThrust_def Physics_ApplyDrag_def
      Let_def)

lemma demo_start_forces:
  "forces (demo_physics False) demo_start d =
     demo_start\<lparr>mVelocity := \<lparr>idx0 = 0, idx1 = 162 / 100 * d * (1031 / 100), idx2 = 0\<rparr>\<rparr>"
  by (subst forces_free_fall)
    (simp_all add: demo_start_simps demo_physics_simps vec3_zero_def)


lemma demo_frame_near:
  fixes safe :: real
  defines "lp \<equiv> Physics_Update (flat_ext 110 safe) (demo_physics False) () demo_start (1 / 10)"
  shows "mLanded lp = (167022 / 100000 \<le> safe)"
    and "mCrashed lp = (\<not> 167022 / 100000 \<le> safe)"
    and "mVelocity lp = vec3_zero"
    and "mPosition lp = \<lparr>idx0 = 400, idx1 = 95, idx2 = 0\<rparr>"
    and "mFuel lp = 1000" and "mMaxFuel lp = 1000" and "mThrustActive lp = False"
proof -
  have fl: "\<not> mLanded demo_start" "\<not> mCrashed demo_start"
    by (simp_all add: demo_start_simps)
  have eq: "lp = snd (CheckCollisions2D (flat_ext 110 safe) (demo_physics False) ()
          (demo_start\<lparr>mVelocity := \<lparr>idx0 = 0, idx1 = 167022 / 100000, idx2 = 0\<rparr>,
                      mPosition := \<lparr>idx0 = 400, idx1 = 100 + 167022 / 1000000, idx2 = 0\<rparr>\<rparr>))"
    unfolding lp_def Physics_Update_def demo_physics_simps if_False
      Update2D_flying [OF demo_physics_simps(1,2) fl]
    by (simp add: demo_physics_simps integrate2D_def demo_start_forces
        SetPosition2_def SetPosition_def flat_ext_simps demo_start_simps)
  show "mLanded lp = (167022 / 100000 \<le> safe)"
    and "mCrashed lp = (\<not> 167022 / 100000 \<le> safe)"
    and "mVelocity lp = vec3_zero"
    and "mPosition lp = \<lparr>idx0 = 400, idx1 = 95, idx2 = 0\<rparr>"
    and "mFuel lp = 1000" and "mMaxFuel lp = 1000" and "mThrustActive lp = False"
    unfolding eq
    by (simp_all add: CheckCollisions2D_def demo_physics_simps Let_def
        SetPosition2_def SetPosition_def flat_ext_simps demo_start_simps vec3_zero_def)
qed

lemma demo_ProcessInput:
  "Game_ProcessInput ext thrust_on demo_game =
     Some (demo_game\<lparr>mLander := Some (Lander_ApplyThrust demo_start 1)\<rparr>)"
  by (simp add: Game_ProcessInput_def ProcessInput_flying_def demo_game_simps thrust_on_def
      Let_def)

subsection \<open>Thrust input is clamped\<close>

text \<open>
  C9. For every input amount, also below 0 or above 1, \<^verbatim>\<open>Lander::ApplyThrust\<close> stores a
  thrust level in \<open>[0, 1]\<close>: the amount clamped into \<open>[0, 1]\<close> when fuel is left, and 0
  otherwise. The call is never rejected (the method has no failure result). Afterwards
  thrust is active exactly when the clamped level is greater than 0 and fuel is positive.
\<close>

theorem Lander_ApplyThrust_clamps:
  "mThrustLevel (Lander_ApplyThrust l amount) = (if 0 < mFuel l then max 0 (min 1 amount) else 0)
   \<and> 0 \<le> mThrustLevel (Lander_ApplyThrust l amount)
   \<and> mThrustLevel (Lander_ApplyThrust l amount) \<le> 1
   \<and> (mThrustActive (Lander_ApplyThrust l amount) \<longleftrightarrow> 0 < max 0 (min 1 amount) \<and> 0 < mFuel l)"
  by (simp add: Lander_ApplyThrust_def std_max_eq std_min_eq Let_def)

theorem Lander_ApplyThrust_clamps_witness:
  "mThrustLevel (Lander_ApplyThrust demo_lander 7) = 1
   \<and> mThrustActive (Lander_ApplyThrust demo_lander 7)
   \<and> mThrustLevel (Lander_ApplyThrust demo_lander (- 3)) = 0
   \<and> \<not> mThrustActive (Lander_ApplyThrust demo_lander (- 3))"
  using Lander_ApplyThrust_clamps [of demo_lander 7]
    Lander_ApplyThrust_clamps [of demo_lander "- 3"]
  by (simp add: demo_lander_def Lander_new_def SetPosition_def)

subsection \<open>Fuel\<close>

text \<open>
  C3. For every non-negative \<open>deltaTime\<close> and every lander whose thrust and fuel members
  satisfy the invariant \<open>lander_ok\<close> (the lander of every reachable game does, lemma
  \<open>reachable_lander_ok\<close>), \<^verbatim>\<open>Lander::Update\<close> never increases fuel; while thrust
  is active the fuel becomes the old fuel minus
  \<open>consumptionRate * thrustLevel * deltaTime\<close>, clamped at 0, and it is never negative;
  thrust stays active only if fuel is left afterwards, so thrust is switched off when
  fuel reaches 0; and \<^verbatim>\<open>Lander::ApplyThrust\<close> does not activate thrust while fuel is 0.
\<close>

theorem Lander_Update_fuel:
  assumes "0 \<le> deltaTime" and "lander_ok l"
  shows "mFuel (Lander_Update l deltaTime) \<le> mFuel l
    \<and> 0 \<le> mFuel (Lander_Update l deltaTime)
    \<and> mFuel (Lander_Update l deltaTime) =
         (if mThrustActive l
          then max 0 (mFuel l - mFuelConsumptionRate l * mThrustLevel l * deltaTime)
          else mFuel l)
    \<and> (mThrustActive (Lander_Update l deltaTime) \<longleftrightarrow>
         mThrustActive l \<and> 0 < mFuel (Lander_Update l deltaTime))
    \<and> (if mFuel l = 0
        then \<not> mThrustActive (Lander_ApplyThrust l amount)
           \<and> mThrustLevel (Lander_ApplyThrust l amount) = 0
        else True)"
  using assms
  by (auto simp: Lander_Update_def lander_ok_def std_max_eq Let_def Lander_ApplyThrust_def
      mult_nonneg_nonneg)


theorem Lander_Update_fuel_witness:
  "(0::real) \<le> 1 / 10 \<and> lander_ok thirsty_lander
   \<and> mFuel thirsty_lander = 1 / 2
   \<and> mFuel (Lander_Update thirsty_lander (1 / 10)) = 0
   \<and> \<not> mThrustActive (Lander_Update thirsty_lander (1 / 10))"
proof -
  have ok: "lander_ok thirsty_lander"
    by (simp add: lander_ok_def thirsty_lander_def demo_lander_def Lander_new_def
        SetPosition_def Lander_ApplyThrust_def Let_def std_max_def std_min_def)
  have dt: "(0::real) \<le> 1 / 10" by simp
  from Lander_Update_fuel [OF dt ok, of 1] ok show ?thesis
    by (simp add: thirsty_lander_def demo_lander_def Lander_new_def
        SetPosition_def Lander_ApplyThrust_def Let_def std_max_def std_min_def)
qed


subsection \<open>Landing outcome\<close>

text \<open>
  C1. When a lander and a terrain are registered and the lander is neither landed nor
  crashed, \<^verbatim>\<open>Physics::CheckCollisions\<close> (2D or 3D, by the mode) sets the landed flag iff
  the terrain reports a collision and \<^verbatim>\<open>IsValidLanding\<close>, evaluated on the lander moved
  to the collision height, is true; it sets the crashed flag iff the terrain reports a
  collision and \<^verbatim>\<open>IsValidLanding\<close> is false; without a collision the lander is unchanged;
  the two flags are never both set; and the result of the call is whether a collision
  was reported.
\<close>

theorem CheckCollisions_landing_outcome:
  assumes "mLander_reg ph" and "mTerrain_reg ph" and "\<not> mLanded l" and "\<not> mCrashed l"
    and "(if m3DMode ph then CheckCollision3D ext t l 0 else CheckCollision2D ext t l 0) = (hit, h)"
    and "l1 = (if m3DMode ph
               then SetPosition l (idx0 (mPosition l)) (h - mHeight l / 2) (idx2 (mPosition l))
               else SetPosition2 ext l (idx0 (mPosition l)) (h - mHeight l / 2))"
    and "valid = (if m3DMode ph then IsValidLanding3D ext t l1 else IsValidLanding2D ext t l1)"
    and "Physics_CheckCollisions ext ph t l = (b, l')"
  shows "(mLanded l' \<longleftrightarrow> hit \<and> valid) \<and> (mCrashed l' \<longleftrightarrow> hit \<and> \<not> valid)
    \<and> (\<not> hit \<longrightarrow> l' = l) \<and> \<not> (mLanded l' \<and> mCrashed l') \<and> b = hit"
proof (cases "m3DMode ph")
  case True
  with assms have q: "CheckCollision3D ext t l 0 = (hit, h)" by simp
  from assms(3,4,6-8) True show ?thesis
    by (auto simp: Physics_CheckCollisions_def CheckCollisions3D_cases [OF assms(1-4) q]
        split: if_splits)
next
  case False
  with assms have q: "CheckCollision2D ext t l 0 = (hit, h)" by simp
  from assms(3,4,6-8) False show ?thesis
    by (auto simp: Physics_CheckCollisions_def CheckCollisions2D_cases [OF assms(1-4) q]
        split: if_splits)
qed

theorem CheckCollisions_landing_outcome_witness:
  "mLander_reg (demo_physics False) \<and> mTerrain_reg (demo_physics False)
   \<and> \<not> mLanded demo_lander \<and> \<not> mCrashed demo_lander
   \<and> mCrashed (snd (Physics_CheckCollisions (flat_ext 110 2) (demo_physics False) () demo_lander))
   \<and> \<not> mLanded (snd (Physics_CheckCollisions (flat_ext 110 2) (demo_physics False) () demo_lander))
   \<and> mLanded (snd (Physics_CheckCollisions (flat_ext 110 6) (demo_physics True) () demo_lander))
   \<and> \<not> mCrashed (snd (Physics_CheckCollisions (flat_ext 110 6) (demo_physics True) () demo_lander))
   \<and> snd (Physics_CheckCollisions (flat_ext 200 6) (demo_physics True) () demo_lander) = demo_lander"
proof -
  have hit2: "(if m3DMode (demo_physics False)
          then CheckCollision3D (flat_ext 110 2) () demo_lander 0
          else CheckCollision2D (flat_ext 110 2) () demo_lander 0) = (True, 110)"
    by (simp add: demo_physics_simps demo_lander_simps flat_ext_simps)
  have hit3: "(if m3DMode (demo_physics True)
          then CheckCollision3D (flat_ext 110 6) () demo_lander 0
          else CheckCollision2D (flat_ext 110 6) () demo_lander 0) = (True, 110)"
    by (simp add: demo_physics_simps demo_lander_simps flat_ext_simps)
  have miss: "(if m3DMode (demo_physics True)
          then CheckCollision3D (flat_ext 200 6) () demo_lander 0
          else CheckCollision2D (flat_ext 200 6) () demo_lander 0) = (False, 0)"
    by (simp add: demo_physics_simps demo_lander_simps flat_ext_simps)
  have fl: "\<not> mLanded demo_lander" "\<not> mCrashed demo_lander"
    by (simp_all add: demo_lander_simps)
  note a = CheckCollisions_landing_outcome [OF demo_physics_simps(1,2) fl hit2 refl refl
      surjective_pairing]
  note b = CheckCollisions_landing_outcome [OF demo_physics_simps(1,2) fl hit3 refl refl
      surjective_pairing]
  note c = CheckCollisions_landing_outcome [OF demo_physics_simps(1,2) fl miss refl refl
      surjective_pairing]
  from a b c fl show ?thesis
    by (simp add: demo_physics_simps demo_lander_simps flat_ext_simps SetPosition2_def
        SetPosition_def)
qed

subsection \<open>Collision snap\<close>

text \<open>
  C8. When the terrain reports a collision for a lander in flight, the collision check
  sets the vertical position to the reported collision height minus half the height of
  the lander, so that the lower edge \<open>y + height / 2\<close> is exactly at the collision height.
  The x position is unchanged; the z position is unchanged in 3D mode, and in 2D mode
  (where z is no coordinate of the simulation) it is the default of the two-argument
  \<^verbatim>\<open>SetPosition\<close>. That is the value z has whenever the check runs inside \<^verbatim>\<open>Update2D\<close>,
  whose position integration has just written it: there z is unchanged as well.
\<close>

theorem CheckCollisions_snap:
  assumes "mLander_reg ph" and "mTerrain_reg ph" and "\<not> mLanded l" and "\<not> mCrashed l"
    and "(if m3DMode ph then CheckCollision3D ext t l 0 else CheckCollision2D ext t l 0) = (True, h)"
    and "l' = snd (Physics_CheckCollisions ext ph t l)"
  shows "idx1 (mPosition l') = h - mHeight l / 2
    \<and> idx1 (mPosition l') + mHeight l' / 2 = h
    \<and> idx0 (mPosition l') = idx0 (mPosition l)
    \<and> idx2 (mPosition l') = (if m3DMode ph then idx2 (mPosition l) else SetPosition_z ext)
    \<and> (if l = integrate2D ext l0 d then idx2 (mPosition l') = idx2 (mPosition l) else True)"
proof (cases "m3DMode ph")
  case True
  with assms have q: "CheckCollision3D ext t l 0 = (True, h)" by simp
  from assms(6) True show ?thesis
    by (simp add: Physics_CheckCollisions_def CheckCollisions3D_cases [OF assms(1-4) q]
        SetPosition_def)
next
  case False
  with assms have q: "CheckCollision2D ext t l 0 = (True, h)" by simp
  from assms(6) False show ?thesis
    by (simp add: Physics_CheckCollisions_def CheckCollisions2D_cases [OF assms(1-4) q]
        SetPosition2_def SetPosition_def integrate2D_def)
qed

theorem CheckCollisions_snap_witness:
  "mLander_reg (demo_physics False) \<and> mTerrain_reg (demo_physics False)
   \<and> \<not> mLanded demo_lander \<and> \<not> mCrashed demo_lander
   \<and> CheckCollision2D (flat_ext 110 2) () demo_lander 0 = (True, 110)
   \<and> mPosition (snd (Physics_CheckCollisions (flat_ext 110 2) (demo_physics False) () demo_lander))
       = \<lparr>idx0 = 400, idx1 = 95, idx2 = 0\<rparr>"
proof -
  have hit2: "(if m3DMode (demo_physics False)
          then CheckCollision3D (flat_ext 110 2) () demo_lander 0
          else CheckCollision2D (flat_ext 110 2) () demo_lander 0) = (True, 110)"
    by (simp add: demo_physics_simps demo_lander_simps flat_ext_simps)
  have fl: "\<not> mLanded demo_lander" "\<not> mCrashed demo_lander"
    by (simp_all add: demo_lander_simps)
  note a = CheckCollisions_snap [OF demo_physics_simps(1,2) fl hit2 refl]
  have "p = \<lparr>idx0 = idx0 p, idx1 = idx1 p, idx2 = idx2 p\<rparr>" for p :: vec3
    by simp
  from this [of "mPosition (snd (Physics_CheckCollisions (flat_ext 110 2) (demo_physics False) () demo_lander))"]
    a fl hit2 show ?thesis
    by (simp add: demo_physics_simps demo_lander_simps flat_ext_simps)
qed

subsection \<open>Time scale\<close>

text \<open>
  C7. For every time scale and every \<open>deltaTime\<close>: when \<^verbatim>\<open>Update2D\<close> ends without a
  landing or crash, the velocity is the one that gravity, thrust and drag give for the
  scaled step \<open>deltaTime * mTimeScale\<close>, while the position has advanced by that velocity
  times the unscaled \<open>deltaTime\<close>. When \<^verbatim>\<open>Update3D\<close> ends without a landing or crash, both
  the forces and the position use the unscaled \<open>deltaTime\<close>; the result of \<^verbatim>\<open>Update3D\<close>
  does not depend on the time scale at all, and neither do the forces themselves.
\<close>

theorem Update_time_scale:
  assumes "mLander_reg ph" and "mTerrain_reg ph"
    and "u2 = Update2D ext ph t l deltaTime" and "u3 = Update3D ext ph t l deltaTime"
  shows "(\<not> mLanded u2 \<and> \<not> mCrashed u2 \<longrightarrow>
            mVelocity u2 = mVelocity (forces ph l (deltaTime * mTimeScale ph))
          \<and> idx0 (mPosition u2) = idx0 (mPosition l) + idx0 (mVelocity u2) * deltaTime
          \<and> idx1 (mPosition u2) = idx1 (mPosition l) + idx1 (mVelocity u2) * deltaTime)
       \<and> (\<not> mLanded u3 \<and> \<not> mCrashed u3 \<longrightarrow>
            mVelocity u3 = mVelocity (forces ph l deltaTime)
          \<and> idx0 (mPosition u3) = idx0 (mPosition l) + idx0 (mVelocity u3) * deltaTime
          \<and> idx1 (mPosition u3) = idx1 (mPosition l) + idx1 (mVelocity u3) * deltaTime
          \<and> idx2 (mPosition u3) = idx2 (mPosition l) + idx2 (mVelocity u3) * deltaTime)
       \<and> Update3D ext (ph\<lparr>mTimeScale := s\<rparr>) t l deltaTime = u3
       \<and> forces (ph\<lparr>mTimeScale := s\<rparr>) l d = forces ph l d"
proof -
  have two: "mVelocity u2 = mVelocity (forces ph l (deltaTime * mTimeScale ph))
          \<and> idx0 (mPosition u2) = idx0 (mPosition l) + idx0 (mVelocity u2) * deltaTime
          \<and> idx1 (mPosition u2) = idx1 (mPosition l) + idx1 (mVelocity u2) * deltaTime"
    if "\<not> mLanded u2" "\<not> mCrashed u2"
    using Update2D_no_collision [OF assms(1,2), of ext t l deltaTime] that assms(3)
    by (simp add: integrate2D_def SetPosition2_def SetPosition_def forces_fields)
  have three: "mVelocity u3 = mVelocity (forces ph l deltaTime)
          \<and> idx0 (mPosition u3) = idx0 (mPosition l) + idx0 (mVelocity u3) * deltaTime
          \<and> idx1 (mPosition u3) = idx1 (mPosition l) + idx1 (mVelocity u3) * deltaTime
          \<and> idx2 (mPosition u3) = idx2 (mPosition l) + idx2 (mVelocity u3) * deltaTime"
    if "\<not> mLanded u3" "\<not> mCrashed u3"
    using Update3D_no_collision [OF assms(1,2), of ext t l deltaTime] that assms(4)
    by (simp add: integrate3D_def SetPosition_def forces_fields)
  from two three show ?thesis
    by (simp add: Update3D_time_scale forces_time_scale assms(4))
qed

theorem Update_time_scale_witness:
  "mLander_reg demo_physics_fast \<and> mTerrain_reg demo_physics_fast
   \<and> mTimeScale demo_physics_fast = 2
   \<and> \<not> mLanded (Update2D (flat_ext 1000 2) demo_physics_fast () demo_lander (1 / 10))
   \<and> \<not> mCrashed (Update2D (flat_ext 1000 2) demo_physics_fast () demo_lander (1 / 10))
   \<and> idx1 (mVelocity (Update2D (flat_ext 1000 2) demo_physics_fast () demo_lander (1 / 10)))
       = 5 + (162 / 100) * (2 / 10) * (1031 / 100)
   \<and> idx1 (mPosition (Update2D (flat_ext 1000 2) demo_physics_fast () demo_lander (1 / 10)))
       = 100 + (5 + (162 / 100) * (2 / 10) * (1031 / 100)) * (1 / 10)
   \<and> \<not> mLanded (Update3D (flat_ext 1000 2) demo_physics_fast () demo_lander (1 / 10))
   \<and> \<not> mCrashed (Update3D (flat_ext 1000 2) demo_physics_fast () demo_lander (1 / 10))
   \<and> idx1 (mVelocity (Update3D (flat_ext 1000 2) demo_physics_fast () demo_lander (1 / 10)))
       = 5 + (162 / 100) * (1 / 10) * (1031 / 100)
   \<and> idx1 (mPosition (Update3D (flat_ext 1000 2) demo_physics_fast () demo_lander (1 / 10)))
       = 100 + (5 + (162 / 100) * (1 / 10) * (1031 / 100)) * (1 / 10)"
proof -
  let ?ext = "flat_ext 1000 2"
  let ?ph = demo_physics_fast
  have fl: "\<not> mLanded demo_lander" "\<not> mCrashed demo_lander"
    by (simp_all add: demo_lander_simps)
  have u2: "Update2D ?ext ?ph () demo_lander (1 / 10) =
      integrate2D ?ext (forces ?ph demo_lander (1 / 10 * mTimeScale ?ph)) (1 / 10)"
    unfolding Update2D_flying [OF demo_physics_fast_simps(1,2) fl]
    by (simp add: CheckCollisions2D_def demo_physics_fast_simps demo_forces integrate2D_def
        SetPosition2_def SetPosition_def flat_ext_simps demo_lander_simps)
  have u3: "Update3D ?ext ?ph () demo_lander (1 / 10) =
      integrate3D (forces ?ph demo_lander (1 / 10)) (1 / 10)"
    unfolding Update3D_flying [OF demo_physics_fast_simps(1,2) fl]
    by (simp add: CheckCollisions3D_def demo_physics_fast_simps demo_forces integrate3D_def
        SetPosition_def flat_ext_simps demo_lander_simps)
  have n2: "\<not> mLanded (Update2D ?ext ?ph () demo_lander (1 / 10))"
    "\<not> mCrashed (Update2D ?ext ?ph () demo_lander (1 / 10))"
    unfolding u2
    by (simp_all add: integrate2D_def SetPosition2_def SetPosition_def forces_fields fl)
  have n3: "\<not> mLanded (Update3D ?ext ?ph () demo_lander (1 / 10))"
    "\<not> mCrashed (Update3D ?ext ?ph () demo_lander (1 / 10))"
    unfolding u3
    by (simp_all add: integrate3D_def SetPosition_def forces_fields fl)
  from Update_time_scale [OF demo_physics_fast_simps(1,2) refl refl,
      of ?ext "()" demo_lander "1 / 10" 1 0] n2 n3
  show ?thesis
    by (simp add: demo_physics_fast_simps demo_forces demo_lander_simps)
qed

subsection \<open>Velocity after landing or crash\<close>

text \<open>
  C2. In every reachable state of the game in which the landed or the crashed flag of the
  lander is set, every velocity component is exactly zero; a further call of
  \<^verbatim>\<open>Physics::Update\<close> (for any physics parameters, terrain and \<open>deltaTime\<close>) changes
  nothing of the lander: no gravity, thrust or drag, no position integration, so the
  velocity stays exactly zero; and \<^verbatim>\<open>Lander::Reset\<close> clears both flags.
\<close>

theorem landed_velocity_zero:
  assumes "reachable ext g" and "mLander g = Some l" and "mLanded l \<or> mCrashed l"
  shows "mVelocity l = vec3_zero
    \<and> Physics_Update ext ph t l deltaTime = l
    \<and> mVelocity (Physics_Update ext ph t l deltaTime) = vec3_zero
    \<and> \<not> mLanded (Lander_Reset l) \<and> \<not> mCrashed (Lander_Reset l)"
proof -
  from reachable_lander_reach [OF assms(1)] assms(2) have "lander_reach ext l"
    by (simp add: game_lander_reach_def)
  then have "lander_still l" by (rule lander_reach_still)
  with assms(3) have "mVelocity l = vec3_zero"
    by (auto simp: lander_still_def)
  then show ?thesis
    by (simp add: Physics_Update_landed [OF assms(3)] Lander_Reset_def Let_def)
qed

theorem landed_velocity_zero_witness:
  "reachable (flat_ext 110 2) (the (Game_Update (flat_ext 110 2) (1 / 10) demo_game))
   \<and> (\<exists>l. mLander (the (Game_Update (flat_ext 110 2) (1 / 10) demo_game)) = Some l
        \<and> mLanded l \<and> mVelocity l = vec3_zero
        \<and> Physics_Update (flat_ext 110 2) (demo_physics True) () l 5 = l)"
proof -
  let ?E = "flat_ext 110 2"
  let ?lp = "Physics_Update ?E (demo_physics False) () demo_start (1 / 10)"
  from Game_Update_flying_defined [OF demo_game_simps(1,2)]
  obtain g' where u: "Game_Update ?E (1 / 10) demo_game = Some g'" by blast
  have r: "reachable ?E g'"
    using r_Update [OF demo_game_reachable u] .
  have l: "mLander g' = Some (Lander_Update ?lp (1 / 10))"
    using Game_Update_flying_lander [OF demo_game_simps(1,4,2,3) u] .
  have landed: "mLanded (Lander_Update ?lp (1 / 10)) \<or> mCrashed (Lander_Update ?lp (1 / 10))"
    by (simp add: Lander_Update_fields demo_frame_near)
  from landed_velocity_zero [OF r l landed, of "demo_physics True" "()" 5] r l show ?thesis
    by (simp add: u Lander_Update_fields demo_frame_near)
qed

subsection \<open>The fuel-used counter\<close>

text \<open>
  C10. The cumulative fuel-used counter \<^verbatim>\<open>mFuelUsed\<close> is exactly 0 in every reachable
  state of the game: the constructor and \<^verbatim>\<open>Reset\<close> set it to 0, and the tracking in
  \<^verbatim>\<open>Game::ProcessInput\<close> compares the fuel reading to itself, so it never adds to it.
\<close>

theorem FuelUsed_always_zero:
  assumes "reachable ext g"
  shows "mFuelUsed g = 0"
  using assms
proof (induction rule: reachable.induct)
  case r_new
  show ?case by (simp add: Game_new_def)
next
  case (r_Initialize g ok b g')
  then show ?case by (simp add: Game_Initialize_FuelUsed)
next
  case (r_Shutdown g)
  then show ?case by (simp add: Game_Shutdown_def)
next
  case (r_ProcessInput g inp g')
  then show ?case by (simp add: Game_ProcessInput_FuelUsed)
next
  case (r_Update g deltaTime g')
  then show ?case by (simp add: Game_Update_FuelUsed)
next
  case (r_Reset g g')
  then show ?case by (simp add: Game_Reset_FuelUsed)
next
  case (r_SetDifficulty g d g')
  then show ?case by (simp add: Game_SetDifficulty_FuelUsed)
next
  case (r_SetRenderingMode g ok use3D g')
  then show ?case by (simp add: Game_SetRenderingMode_FuelUsed)
next
  case (r_OnKeyDown g ok k g')
  then show ?case by (simp add: Game_OnKeyDown_FuelUsed)
qed

theorem FuelUsed_always_zero_witness:
  "reachable (flat_ext 1000 2)
     (the (Game_Update (flat_ext 1000 2) (1 / 10)
        (the (Game_ProcessInput (flat_ext 1000 2) thrust_on demo_game))))
   \<and> mFuelUsed (the (Game_Update (flat_ext 1000 2) (1 / 10)
        (the (Game_ProcessInput (flat_ext 1000 2) thrust_on demo_game)))) = 0
   \<and> (\<exists>l. mLander (the (Game_Update (flat_ext 1000 2) (1 / 10)
        (the (Game_ProcessInput (flat_ext 1000 2) thrust_on demo_game)))) = Some l
        \<and> mFuel l = 999)"
proof -
  let ?E = "flat_ext 1000 2"
  let ?l1 = "Lander_ApplyThrust demo_start 1"
  let ?g1 = "demo_game\<lparr>mLander := Some ?l1\<rparr>"
  let ?lp = "Physics_Update ?E (demo_physics False) () ?l1 (1 / 10)"
  have g1: "mGameState ?g1 = FLYING" "mPhysics ?g1 = Some (demo_physics False)"
    "mLander ?g1 = Some ?l1" "mTerrain ?g1 = Some ()"
    by (simp_all add: demo_game_simps)
  have r1: "reachable ?E ?g1"
    using r_ProcessInput [OF demo_game_reachable demo_ProcessInput] .
  from Game_Update_flying_defined [OF g1(1,3)]
  obtain g' where u: "Game_Update ?E (1 / 10) ?g1 = Some g'" by blast
  have r: "reachable ?E g'"
    using r_Update [OF r1 u] .
  have l: "mLander g' = Some (Lander_Update ?lp (1 / 10))"
    using Game_Update_flying_lander [OF g1 u] .
  have l1: "mFuel ?l1 = 1000" "mThrustActive ?l1" "mThrustLevel ?l1 = 1"
    "mFuelConsumptionRate ?l1 = 10"
    by (simp_all add: Lander_ApplyThrust_def Let_def std_max_def std_min_def demo_start_def
        SetPosition_def Lander_new_def)
  have f: "mFuel (Lander_Update ?lp (1 / 10)) = 999"
    by (simp add: Lander_Update_def Let_def Physics_Update_fields l1 std_max_def)
  from FuelUsed_always_zero [OF r] r l f show ?thesis
    by (simp add: demo_ProcessInput u)
qed

subsection \<open>Score\<close>

text \<open>
  C5. In a reachable state \<^verbatim>\<open>FLYING\<close>, when \<^verbatim>\<open>Game::Update\<close> finds the landed flag of the
  lander set after the frame, the state becomes \<^verbatim>\<open>LANDED\<close> and the score is
  \<open>fuel / maxFuel * 1000\<close> (with \<open>maxFuel = 1000\<close>, so the division is defined); when it
  finds the crashed flag set, the state becomes \<^verbatim>\<open>CRASHED\<close> and the score is 0.
\<close>

theorem Game_Update_score:
  assumes "reachable ext g" and "mGameState g = FLYING"
    and "Game_Update ext deltaTime g = Some g'" and "mLander g' = Some l'"
  shows "(mLanded l' \<longrightarrow> mGameState g' = LANDED \<and> mScore g' = mFuel l' / mMaxFuel l' * 1000)
    \<and> (mCrashed l' \<longrightarrow> mGameState g' = CRASHED \<and> mScore g' = 0)
    \<and> mMaxFuel l' = 1000"
proof -
  from assms(1,3) have "reachable ext g'" by (rule r_Update)
  with assms(4) have r: "lander_reach ext l'"
    using reachable_lander_reach [of ext g'] by (simp add: game_lander_reach_def)
  from lander_reach_still [OF r] have "\<not> (mLanded l' \<and> mCrashed l')"
    by (simp add: lander_still_def)
  with Game_Update_outcome [OF assms(2,3,4)] lander_reach_ok [OF r] show ?thesis
    by auto
qed

theorem Game_Update_score_witness:
  "reachable (flat_ext 110 2) demo_game \<and> mGameState demo_game = FLYING
   \<and> mGameState (the (Game_Update (flat_ext 110 2) (1 / 10) demo_game)) = LANDED
   \<and> mScore (the (Game_Update (flat_ext 110 2) (1 / 10) demo_game)) = 1000
   \<and> mGameState (the (Game_Update (flat_ext 110 1) (1 / 10) demo_game)) = CRASHED
   \<and> mScore (the (Game_Update (flat_ext 110 1) (1 / 10) demo_game)) = 0"
proof -
  have one: "mGameState (the (Game_Update (flat_ext 110 safe) (1 / 10) demo_game)) =
        (if 167022 / 100000 \<le> safe then LANDED else CRASHED)
      \<and> mScore (the (Game_Update (flat_ext 110 safe) (1 / 10) demo_game)) =
        (if 167022 / 100000 \<le> safe then 1000 else 0)" for safe :: real
  proof -
    let ?E = "flat_ext 110 safe"
    let ?lp = "Physics_Update ?E (demo_physics False) () demo_start (1 / 10)"
    from Game_Update_flying_defined [OF demo_game_simps(1,2)]
    obtain g' where u: "Game_Update ?E (1 / 10) demo_game = Some g'" by blast
    have l: "mLander g' = Some (Lander_Update ?lp (1 / 10))"
      using Game_Update_flying_lander [OF demo_game_simps(1,4,2,3) u] .
    have f: "mFuel (Lander_Update ?lp (1 / 10)) = 1000"
      by (simp add: Lander_Update_def Let_def demo_frame_near)
    from Game_Update_score [OF demo_game_reachable demo_game_simps(1) u l] f show ?thesis
      by (simp add: u Lander_Update_fields demo_frame_near)
  qed
  from one [of 2] one [of 1] demo_game_reachable [of 110 2] show ?thesis
    by (simp add: demo_game_simps)
qed

subsection \<open>Double integration of the position\<close>



subsection \<open>Reset\<close>

text \<open>
  C6. For every state with a lander, \<^verbatim>\<open>Game::Reset\<close> succeeds and leaves the state
  \<^verbatim>\<open>FLYING\<close> (not \<^verbatim>\<open>READY\<close>), score, elapsed time and fuel used 0, and the lander active
  at the initial position of the mode (2D: half the window width, 100; 3D: half the
  window width, a third of the window height, half the window width), with rotation,
  velocity and acceleration zero, fuel equal to the maximum, thrust off and neither
  landed nor crashed. Mode, window size and maximal fuel are unchanged, so a second
  \<^verbatim>\<open>Reset\<close> gives the same state again, up to the regenerated terrain.
\<close>

theorem Game_Reset_idempotent:
  assumes "mLander g = Some l"
  shows "\<exists>g' l'. Game_Reset ext g = Some g' \<and> mLander g' = Some l'
    \<and> mGameState g' = FLYING \<and> mScore g' = 0 \<and> mElapsedTime g' = 0 \<and> mFuelUsed g' = 0
    \<and> mPosition l' =
        (if m3DMode_g g
         then \<lparr>idx0 = of_int (mWindowWidth g sdiv 2), idx1 = of_int (mWindowHeight g sdiv 3),
               idx2 = of_int (mWindowWidth g sdiv 2)\<rparr>
         else \<lparr>idx0 = of_int (mWindowWidth g sdiv 2), idx1 = 100, idx2 = SetPosition_z ext\<rparr>)
    \<and> mRotation l' = vec3_zero \<and> mVelocity l' = vec3_zero \<and> mAcceleration l' = vec3_zero
    \<and> mFuel l' = mMaxFuel l \<and> mThrustLevel l' = 0 \<and> \<not> mThrustActive l'
    \<and> \<not> mLanded l' \<and> \<not> mCrashed l' \<and> mActive l'
    \<and> m3DMode_g g' = m3DMode_g g \<and> mWindowWidth g' = mWindowWidth g
    \<and> mWindowHeight g' = mWindowHeight g \<and> mMaxFuel l' = mMaxFuel l
    \<and> (\<exists>g''. Game_Reset ext g' = Some g'' \<and> g''\<lparr>mTerrain := mTerrain g'\<rparr> = g')"
  using assms
  by (cases "mTerrain g")
    (simp_all add: Game_Reset_def Let_def Lander_Reset_def SetPosition_def SetPosition2_def
      SetRotation_def vec3_zero_def)

theorem Game_Reset_idempotent_witness:
  "mLander wrecked_game = Some (thirsty_lander\<lparr>mCrashed := True\<rparr>)
   \<and> mGameState wrecked_game = CRASHED
   \<and> (\<exists>g' l'. Game_Reset (flat_ext 110 2) wrecked_game = Some g' \<and> mLander g' = Some l'
        \<and> mGameState g' = FLYING \<and> mScore g' = 0
        \<and> mPosition l' = \<lparr>idx0 = 400, idx1 = 100, idx2 = 0\<rparr>
        \<and> mVelocity l' = vec3_zero \<and> mFuel l' = 1000 \<and> \<not> mCrashed l')"
proof -
  have l: "mLander wrecked_game = Some (thirsty_lander\<lparr>mCrashed := True\<rparr>)"
    by (simp add: wrecked_game_def)
  have c: "m3DMode_g wrecked_game = False" "mWindowWidth wrecked_game = 800"
    "mGameState wrecked_game = CRASHED"
    "mMaxFuel (thirsty_lander\<lparr>mCrashed := True\<rparr>) = 1000"
    by (simp_all add: wrecked_game_def demo_game_def thirsty_lander_def demo_lander_def
        Lander_ApplyThrust_def Let_def SetPosition_def Lander_new_def)
  from Game_Reset_idempotent [OF l, of "flat_ext 110 2"] l c show ?thesis
    by (auto simp: flat_ext_simps signed_divide_int_def)
qed

end
